theory Spec2Isabelle
  imports Main "HOL-Library.AList"
begin

section \<open>Values shared by the builder's functions\<close>

text \<open>
  The builder (\<^verbatim>\<open>packages/now-cura/src/index.ts\<close>) and its tracer
  (\<^verbatim>\<open>compile\<close>) are TypeScript. A thrown exception is a value of
  \<open>error\<close>: an \<^verbatim>\<open>Error\<close> or a \<^verbatim>\<open>TypeError\<close> carries its message, a
  Node filesystem exception carries its \<^verbatim>\<open>code\<close>. A function that may throw
  returns \<open>error + 'a\<close>, \<open>Inl\<close> for the exception.
\<close>

type_synonym path = string

datatype error = Error string | TypeError string | ErrnoException string

fun code :: "error \<Rightarrow> string option" where
  "code (Error m) = None"
| "code (TypeError m) = None"
| "code (ErrnoException c) = Some c"

text \<open>
  \<^verbatim>\<open>`${n}`\<close> and \<^verbatim>\<open>String(n)\<close> of a non-negative integer: its decimal
  digits.
\<close>

definition digit :: "nat \<Rightarrow> char" where
  "digit d = char_of (48 + d)"

fun show_nat :: "nat \<Rightarrow> string" where
  "show_nat n = (if n < 10 then [digit n] else show_nat (n div 10) @ [digit (n mod 10)])"

declare show_nat.simps [simp del]

section \<open>Script resolution: getCommand\<close>

text \<open>
  \<^verbatim>\<open>PackageJson\<close> as far as the builder reads it: the optional
  \<^verbatim>\<open>scripts\<close> object, a dictionary from script names to command strings.
  \<^verbatim>\<open>Config\<close> as far as the builder and the tracer read it: the flag
  \<^verbatim>\<open>zeroConfig\<close>, read for its truthiness, and the optional
  \<^verbatim>\<open>includeFiles\<close> and \<^verbatim>\<open>excludeFiles\<close>, each one glob pattern or an
  array of them.
\<close>

record package_json =
  scripts :: "(string \<rightharpoonup> string) option"

datatype patterns = One string | Many "string list"

record config =
  zeroConfig :: bool
  includeFiles :: "patterns option"
  excludeFiles :: "patterns option"

text \<open>The two configurations without include or exclude patterns.\<close>

definition zero_config :: config where
  "zero_config = \<lparr>zeroConfig = True, includeFiles = None, excludeFiles = None\<rparr>"

definition custom_config :: config where
  "custom_config = \<lparr>zeroConfig = False, includeFiles = None, excludeFiles = None\<rparr>"

text \<open>
  \<^verbatim>\<open>(pkg && pkg.scripts) || {}\<close>: the scripts object, or the empty object when
  the manifest is null or has none.
\<close>

definition scripts_of :: "package_json option \<Rightarrow> (string \<rightharpoonup> string)" where
  "scripts_of pkg =
     (case pkg of None \<Rightarrow> Map.empty
      | Some p \<Rightarrow> (case scripts p of None \<Rightarrow> Map.empty | Some s \<Rightarrow> s))"

text \<open>
  \<^verbatim>\<open>if (scripts[name])\<close>: a string is truthy exactly when it is not empty, and a
  missing property is \<^verbatim>\<open>undefined\<close>, which is falsy.
\<close>

definition truthy_script :: "(string \<rightharpoonup> string) \<Rightarrow> string \<Rightarrow> bool" where
  "truthy_script s name = (case s name of None \<Rightarrow> False | Some c \<Rightarrow> c \<noteq> [])"

definition getCommand :: "package_json option \<Rightarrow> string \<Rightarrow> config \<Rightarrow> string" where
  "getCommand pkg cmd cfg =
     (let nowCmd = ''now-'' @ cmd in
      if \<not> zeroConfig cfg \<and> cmd = ''dev'' then nowCmd
      else
        let s = scripts_of pkg in
        if truthy_script s nowCmd then nowCmd
        else if truthy_script s cmd then cmd
        else if zeroConfig cfg then cmd else nowCmd)"

text \<open>
  The resolver in the words of the specification (section 4.3), for comparison with
  \<open>getCommand\<close>: the phase is one of build and dev, the platform prefix is
  \<^verbatim>\<open>now\<close>, and a manifest declares a script when its scripts dictionary has
  that key.
\<close>

datatype phase = Build | Dev

fun phase_name :: "phase \<Rightarrow> string" where
  "phase_name Build = ''build''"
| "phase_name Dev = ''dev''"

definition declares :: "(string \<rightharpoonup> string) \<Rightarrow> string \<Rightarrow> bool" where
  "declares s name = (s name \<noteq> None)"

definition resolveScript_spec :: "(string \<rightharpoonup> string) \<Rightarrow> phase \<Rightarrow> bool \<Rightarrow> string" where
  "resolveScript_spec manifestScripts ph strict =
     (if \<not> strict \<and> ph = Dev then ''now-dev''
      else if declares manifestScripts (''now-'' @ phase_name ph) then ''now-'' @ phase_name ph
      else if declares manifestScripts (phase_name ph) then phase_name ph
      else if strict then phase_name ph else ''now-'' @ phase_name ph)"

text \<open>
  The same rules with the one change the code forces: a script counts only when its
  command string is not empty.
\<close>

definition resolveScript_nonempty :: "(string \<rightharpoonup> string) \<Rightarrow> phase \<Rightarrow> bool \<Rightarrow> string" where
  "resolveScript_nonempty manifestScripts ph strict =
     (if \<not> strict \<and> ph = Dev then ''now-dev''
      else if truthy_script manifestScripts (''now-'' @ phase_name ph) then ''now-'' @ phase_name ph
      else if truthy_script manifestScripts (phase_name ph) then phase_name ph
      else if strict then phase_name ph else ''now-'' @ phase_name ph)"

text \<open>
  C3 as the specification words it fails where a manifest declares a script with an
  empty command: \<^verbatim>\<open>{"scripts": {"now-build": ""}}\<close> in zero-config mode resolves
  to \<^verbatim>\<open>build\<close>, although the manifest declares \<^verbatim>\<open>now-build\<close>.
\<close>

theorem getCommand_declared_empty_counterexample:
  "declares [''now-build'' \<mapsto> ''''] ''now-build'' \<and>
   getCommand (Some \<lparr>scripts = Some [''now-build'' \<mapsto> '''']\<rparr>) (phase_name Build)
       zero_config = ''build'' \<and>
   resolveScript_spec [''now-build'' \<mapsto> ''''] Build True = ''now-build''"
  by (simp add: getCommand_def resolveScript_spec_def declares_def scripts_of_def
      truthy_script_def zero_config_def)

text \<open>
  C3 (amended): getCommand is a total function of the manifest, the phase and the
  zero-config flag, and for every manifest, both phases and both values of the flag it
  returns the name the priority order of section 4.3 gives, a script counting as declared
  when its command string is not empty: \<^verbatim>\<open>now-dev\<close> for dev outside zero-config
  mode whatever the manifest holds, else \<^verbatim>\<open>now-<phase>\<close> if declared, else
  \<^verbatim>\<open><phase>\<close> if declared, else \<^verbatim>\<open><phase>\<close> in zero-config mode and
  \<^verbatim>\<open>now-<phase>\<close> otherwise.
\<close>

theorem getCommand_priority_order:
  "getCommand pkg (phase_name ph) cfg = resolveScript_nonempty (scripts_of pkg) ph (zeroConfig cfg)"
  by (cases ph) (simp_all add: getCommand_def resolveScript_nonempty_def)

section \<open>Output-directory validation: validateDistDir\<close>

text \<open>
  The functions of Node's \<^verbatim>\<open>fs\<close> and \<^verbatim>\<open>path\<close> modules the builder
  calls are parameters of the model: what the disk holds is not the builder's to decide.
  \<open>isDirectory\<close> is \<^verbatim>\<open>statSync(p).isDirectory()\<close>.
\<close>

record node_fs =
  existsSync :: "path \<Rightarrow> bool"
  isDirectory :: "path \<Rightarrow> error + bool"
  readdirSync :: "path \<Rightarrow> error + string list"
  readFileSync :: "path \<Rightarrow> error + string"
  lstatSync :: "path \<Rightarrow> error + nat"

record node_path =
  basename :: "path \<Rightarrow> string"
  dirname :: "path \<Rightarrow> path"
  join :: "path list \<Rightarrow> path"
  resolve :: "path \<Rightarrow> path \<Rightarrow> path"
  relative :: "path \<Rightarrow> path \<Rightarrow> path"

definition docsUrl :: "bool \<Rightarrow> string" where
  "docsUrl isDev =
     ''https://zeit.co/docs/v2/deployments/official-builders/static-build-now-static-build'' @
     (if isDev then ''#local-development'' else ''#configuring-the-build-output-directory'')"

definition info :: "bool \<Rightarrow> config \<Rightarrow> string" where
  "info isDev cfg =
     (if zeroConfig cfg
      then ''\<newline>More details: https://zeit.co/docs/v2/platform/frequently-asked-questions#missing-public-directory''
      else ''\<newline>Make sure you configure the the correct distDir: '' @ docsUrl isDev)"

definition not_found_message :: "string \<Rightarrow> string \<Rightarrow> string" where
  \<open>not_found_message distDirName i = ''No output directory named "'' @ distDirName @ ''" found.'' @ i\<close>

definition not_a_directory_message :: "string \<Rightarrow> string \<Rightarrow> string" where
  \<open>not_a_directory_message distDirName i =
     ''Build failed because distDir is not a directory: "'' @ distDirName @ ''".'' @ i\<close>

definition empty_message :: "string \<Rightarrow> string \<Rightarrow> string" where
  \<open>empty_message distDirName i =
     ''Build failed because distDir is empty: "'' @ distDirName @ ''".'' @ i\<close>

definition validateDistDir ::
  "node_path \<Rightarrow> node_fs \<Rightarrow> path \<Rightarrow> bool \<Rightarrow> config \<Rightarrow> error + unit" where
  "validateDistDir np fs distDir isDev cfg =
     (let distDirName = basename np distDir; i = info isDev cfg in
      if \<not> existsSync fs distDir then Inl (Error (not_found_message distDirName i))
      else
        case isDirectory fs distDir of
          Inl e \<Rightarrow> Inl e
        | Inr False \<Rightarrow> Inl (Error (not_a_directory_message distDirName i))
        | Inr True \<Rightarrow>
            (case readdirSync fs distDir of
               Inl e \<Rightarrow> Inl e
             | Inr entries \<Rightarrow>
                 if length entries = 0 then Inl (Error (empty_message distDirName i))
                 else Inr ()))"

text \<open>A text embeds another when the other is a contiguous part of it.\<close>

definition embeds :: "string \<Rightarrow> string \<Rightarrow> bool" where
  "embeds whole part = (\<exists>before after. whole = before @ part @ after)"

lemma embeds_mid: "embeds (a @ part @ b) part"
  unfolding embeds_def by blast

lemma embeds_end: "embeds (a @ part) part"
  unfolding embeds_def by (rule exI [of _ a], rule exI [of _ "[]"]) simp

lemma message_embeds:
  "embeds (not_found_message n i) n" "embeds (not_found_message n i) i"
  "embeds (not_a_directory_message n i) n" "embeds (not_a_directory_message n i) i"
  "embeds (empty_message n i) n" "embeds (empty_message n i) i"
  unfolding not_found_message_def not_a_directory_message_def empty_message_def
  by (rule embeds_mid | rule embeds_end [of "_ @ _ @ _", simplified])+

lemma info_distinguishes: "info isDev zero_config \<noteq> info isDev' custom_config"
  by (simp add: info_def zero_config_def custom_config_def)

text \<open>
  C5: validation stops at the first failing check, in the order exists, is a directory,
  is not empty. A path that does not exist gives the not-found error whatever the other
  two calls would answer; an existing path that is not a directory gives the
  not-a-directory error; an existing empty directory gives the empty-output error, which
  is not the not-found error; an existing directory with an entry passes. Each of the
  three messages embeds the base name of the directory and the hint, and the hint of
  zero-config mode differs from the hint of a configured build.
\<close>

theorem validateDistDir_order:
  "(\<not> existsSync fs d \<longrightarrow>
      validateDistDir np fs d isDev cfg =
        Inl (Error (not_found_message (basename np d) (info isDev cfg)))) \<and>
   (existsSync fs d \<and> isDirectory fs d = Inr False \<longrightarrow>
      validateDistDir np fs d isDev cfg =
        Inl (Error (not_a_directory_message (basename np d) (info isDev cfg)))) \<and>
   (existsSync fs d \<and> isDirectory fs d = Inr True \<and> readdirSync fs d = Inr [] \<longrightarrow>
      validateDistDir np fs d isDev cfg =
        Inl (Error (empty_message (basename np d) (info isDev cfg))) \<and>
      empty_message (basename np d) (info isDev cfg) \<noteq>
        not_found_message (basename np d) (info isDev cfg)) \<and>
   (existsSync fs d \<and> isDirectory fs d = Inr True \<and> readdirSync fs d = Inr (x # xs) \<longrightarrow>
      validateDistDir np fs d isDev cfg = Inr ()) \<and>
   embeds (not_found_message (basename np d) (info isDev cfg)) (basename np d) \<and>
   embeds (not_found_message (basename np d) (info isDev cfg)) (info isDev cfg) \<and>
   embeds (not_a_directory_message (basename np d) (info isDev cfg)) (basename np d) \<and>
   embeds (not_a_directory_message (basename np d) (info isDev cfg)) (info isDev cfg) \<and>
   embeds (empty_message (basename np d) (info isDev cfg)) (basename np d) \<and>
   embeds (empty_message (basename np d) (info isDev cfg)) (info isDev cfg) \<and>
   info isDev (cfg\<lparr>zeroConfig := True\<rparr>) \<noteq> info isDev (cfg\<lparr>zeroConfig := False\<rparr>)"
proof -
  have order: "\<not> existsSync fs d \<longrightarrow>
      validateDistDir np fs d isDev cfg =
        Inl (Error (not_found_message (basename np d) (info isDev cfg)))"
    "existsSync fs d \<and> isDirectory fs d = Inr False \<longrightarrow>
      validateDistDir np fs d isDev cfg =
        Inl (Error (not_a_directory_message (basename np d) (info isDev cfg)))"
    "existsSync fs d \<and> isDirectory fs d = Inr True \<and> readdirSync fs d = Inr [] \<longrightarrow>
      validateDistDir np fs d isDev cfg =
        Inl (Error (empty_message (basename np d) (info isDev cfg)))"
    "existsSync fs d \<and> isDirectory fs d = Inr True \<and> readdirSync fs d = Inr (x # xs) \<longrightarrow>
      validateDistDir np fs d isDev cfg = Inr ()"
    by (simp_all add: validateDistDir_def)
  have differ: "empty_message (basename np d) (info isDev cfg) \<noteq>
        not_found_message (basename np d) (info isDev cfg)"
    by (simp add: empty_message_def not_found_message_def)
  have hints: "info isDev (cfg\<lparr>zeroConfig := True\<rparr>) \<noteq> info isDev (cfg\<lparr>zeroConfig := False\<rparr>)"
    by (simp add: info_def)
  from order differ hints show ?thesis by (simp add: message_embeds)
qed

text \<open>
  An instance of the path functions for the examples: POSIX paths that are already
  normalised, relative ones under the working directory.
\<close>

definition posix_path :: node_path where
  "posix_path =
     \<lparr>basename = (\<lambda>p. rev (takeWhile (\<lambda>c. c \<noteq> CHR ''/'') (rev p))),
      dirname = (\<lambda>p. let d = rev (drop 1 (dropWhile (\<lambda>c. c \<noteq> CHR ''/'') (rev p)))
                      in if d = [] then ''.'' else d),
      join = (\<lambda>ps. case filter (\<lambda>q. q \<noteq> ''.'' \<and> q \<noteq> []) ps of
                      [] \<Rightarrow> ''.''
                    | q # qs \<Rightarrow> foldl (\<lambda>a b. a @ ''/'' @ b) q qs),
      resolve = (\<lambda>w f. w @ ''/'' @ f),
      relative = (\<lambda>w p. if take (length w + 1) p = w @ ''/'' then drop (length w + 1) p else p)\<rparr>"

definition disk_with :: "bool \<Rightarrow> bool \<Rightarrow> string list \<Rightarrow> node_fs" where
  "disk_with ex dir entries =
     \<lparr>existsSync = (\<lambda>p. ex), isDirectory = (\<lambda>p. Inr dir), readdirSync = (\<lambda>p. Inr entries),
      readFileSync = (\<lambda>p. Inl (ErrnoException ''ENOENT'')),
      lstatSync = (\<lambda>p. Inl (ErrnoException ''ENOENT''))\<rparr>"

theorem validateDistDir_order_witness:
  "validateDistDir posix_path (disk_with False True []) ''/w/build/web'' False custom_config =
     Inl (Error (not_found_message ''web'' (info False custom_config))) \<and>
   validateDistDir posix_path (disk_with True False []) ''/w/build/web'' False custom_config =
     Inl (Error (not_a_directory_message ''web'' (info False custom_config))) \<and>
   validateDistDir posix_path (disk_with True True []) ''/w/build/web'' False zero_config =
     Inl (Error (empty_message ''web'' (info False zero_config))) \<and>
   validateDistDir posix_path (disk_with True True [''index.html'']) ''/w/build/web'' False
     zero_config = Inr ()"
proof -
  have name: "basename posix_path ''/w/build/web'' = ''web''"
    by (simp add: posix_path_def)
  have missing: "\<not> existsSync (disk_with False True []) ''/w/build/web''"
    and regular: "existsSync (disk_with True False []) ''/w/build/web'' \<and>
      isDirectory (disk_with True False []) ''/w/build/web'' = Inr False"
    and vacant: "existsSync (disk_with True True []) ''/w/build/web'' \<and>
      isDirectory (disk_with True True []) ''/w/build/web'' = Inr True \<and>
      readdirSync (disk_with True True []) ''/w/build/web'' = Inr []"
    and filled: "existsSync (disk_with True True [''index.html'']) ''/w/build/web'' \<and>
      isDirectory (disk_with True True [''index.html'']) ''/w/build/web'' = Inr True \<and>
      readdirSync (disk_with True True [''index.html'']) ''/w/build/web'' = Inr [''index.html'']"
    by (simp_all add: disk_with_def)
  note absent_case = validateDistDir_order [of "disk_with False True []" "''/w/build/web''"
      posix_path False custom_config, THEN conjunct1, rule_format, OF missing,
      unfolded name]
  note file_case = validateDistDir_order [of "disk_with True False []" "''/w/build/web''"
      posix_path False custom_config, THEN conjunct2, THEN conjunct1, rule_format,
      OF regular, unfolded name]
  note empty_case = validateDistDir_order [of "disk_with True True []" "''/w/build/web''"
      posix_path False zero_config, THEN conjunct2, THEN conjunct2,
      THEN conjunct1, rule_format, OF vacant, THEN conjunct1, unfolded name]
  note good_case = validateDistDir_order [of "disk_with True True [''index.html'']"
      "''/w/build/web''" posix_path False zero_config "''index.html''" "[]",
      THEN conjunct2, THEN conjunct2, THEN conjunct2, THEN conjunct1, rule_format, OF filled]
  show ?thesis
    by (intro conjI absent_case file_case empty_case good_case)
qed

section \<open>Readiness polling: checkForPort\<close>

text \<open>
  Time is the reading of \<^verbatim>\<open>Date.now()\<close>, in milliseconds. What the loop cannot
  decide is a parameter: whether a probe started at a given time finds the port reachable,
  how long that probe takes, by how much the 100 ms timer fires late, and the text
  \<^verbatim>\<open>ms\<close> renders a duration as.
\<close>

record timing =
  isPortReachable :: "nat \<Rightarrow> int \<Rightarrow> bool"
  probe_ms :: "int \<Rightarrow> nat"
  timer_lag :: "int \<Rightarrow> nat"
  ms :: "int \<Rightarrow> string"

definition timed_out_message :: "timing \<Rightarrow> nat \<Rightarrow> int \<Rightarrow> string" where
  "timed_out_message tm port timeout =
     ''Detecting port '' @ show_nat port @ '' timed out after '' @ ms tm timeout"

text \<open>
  One round of the \<^verbatim>\<open>while\<close> loop starts a probe at time \<open>now\<close>; \<open>t\<close>
  is the time the probe has answered, which is the reading the deadline test uses. The
  function returns the outcome and the time at which it returns or throws.
\<close>

function checkForPort_loop ::
  "timing \<Rightarrow> nat \<Rightarrow> int \<Rightarrow> int \<Rightarrow> int \<Rightarrow> (error + unit) \<times> int" where
  "checkForPort_loop tm port timeout start now =
     (let t = now + int (probe_ms tm now) in
      if isPortReachable tm port now then (Inr (), t)
      else if t - start > timeout
        then (Inl (Error (timed_out_message tm port timeout)), t)
        else checkForPort_loop tm port timeout start (t + 100 + int (timer_lag tm t)))"
  by pat_completeness auto
termination
  by (relation "measure (\<lambda>(tm, port, timeout, start, now). nat (start + timeout + 1 - now))") auto

declare checkForPort_loop.simps [simp del]

definition checkForPort :: "timing \<Rightarrow> nat \<Rightarrow> int \<Rightarrow> int \<Rightarrow> (error + unit) \<times> int" where
  "checkForPort tm port timeout start = checkForPort_loop tm port timeout start start"

lemma loop_reachable:
  "isPortReachable tm port now \<Longrightarrow>
   checkForPort_loop tm port timeout start now = (Inr (), now + int (probe_ms tm now))"
  by (subst checkForPort_loop.simps) simp

lemma loop_retry:
  "\<not> isPortReachable tm port now \<Longrightarrow> now + int (probe_ms tm now) - start \<le> timeout \<Longrightarrow>
   checkForPort_loop tm port timeout start now =
     checkForPort_loop tm port timeout start
       (now + int (probe_ms tm now) + 100 + int (timer_lag tm (now + int (probe_ms tm now))))"
  by (subst checkForPort_loop.simps) (simp add: Let_def)

lemma loop_failure_late:
  "checkForPort_loop tm port timeout start now = (Inl e, t) \<Longrightarrow>
   timeout < t - start \<and> e = Error (timed_out_message tm port timeout)"
proof (induction tm port timeout start now rule: checkForPort_loop.induct)
  case (1 tm port timeout start now)
  show ?case
  proof (cases "isPortReachable tm port now")
    case True
    with "1.prems" show ?thesis by (simp add: loop_reachable)
  next
    case False
    show ?thesis
    proof (cases "timeout < now + int (probe_ms tm now) - start")
      case True
      with False "1.prems" show ?thesis
        by (subst (asm) checkForPort_loop.simps) (simp add: Let_def)
    next
      case late: False
      with False "1.prems" have
        "checkForPort_loop tm port timeout start
           (now + int (probe_ms tm now) + 100 + int (timer_lag tm (now + int (probe_ms tm now))))
         = (Inl e, t)"
        by (simp add: loop_retry)
      with "1.IH" [OF refl False] late show ?thesis by simp
    qed
  qed
qed

lemma loop_never_reachable:
  "\<forall>t. \<not> isPortReachable tm port t \<Longrightarrow>
   \<exists>t. checkForPort_loop tm port timeout start now =
     (Inl (Error (timed_out_message tm port timeout)), t)"
proof (induction tm port timeout start now rule: checkForPort_loop.induct)
  case (1 tm port timeout start now)
  then have unreachable: "\<not> isPortReachable tm port now" by simp
  show ?case
  proof (cases "timeout < now + int (probe_ms tm now) - start")
    case True
    with unreachable show ?thesis
      by (subst checkForPort_loop.simps) (simp add: Let_def)
  next
    case False
    with "1.IH" [OF refl unreachable] "1.prems" unreachable show ?thesis
      by (simp add: loop_retry)
  qed
qed

lemma loop_failure_bound:
  "checkForPort_loop tm port timeout start now = (Inl e, t) \<Longrightarrow>
   \<forall>u. probe_ms tm u \<le> P \<Longrightarrow> \<forall>u. timer_lag tm u \<le> J \<Longrightarrow>
   now - start \<le> timeout + 100 + int J \<Longrightarrow>
   t - start \<le> timeout + 100 + int J + int P"
proof (induction tm port timeout start now rule: checkForPort_loop.induct)
  case (1 tm port timeout start now)
  have p: "int (probe_ms tm now) \<le> int P" using "1.prems"(2) by simp
  show ?case
  proof (cases "isPortReachable tm port now")
    case True
    with "1.prems" show ?thesis by (simp add: loop_reachable)
  next
    case False
    show ?thesis
    proof (cases "timeout < now + int (probe_ms tm now) - start")
      case True
      with False "1.prems"(1) have "t = now + int (probe_ms tm now)"
        by (subst (asm) checkForPort_loop.simps) (simp add: Let_def)
      with p "1.prems"(4) show ?thesis by simp
    next
      case late: False
      let ?n = "now + int (probe_ms tm now) + 100 + int (timer_lag tm (now + int (probe_ms tm now)))"
      from late False "1.prems"(1) have r: "checkForPort_loop tm port timeout start ?n = (Inl e, t)"
        by (simp add: loop_retry)
      have "int (timer_lag tm (now + int (probe_ms tm now))) \<le> int J" using "1.prems"(3) by simp
      with late have "?n - start \<le> timeout + 100 + int J" by simp
      with "1.IH" [OF refl False _ r "1.prems"(2,3)] late show ?thesis by simp
    qed
  qed
qed

lemma timed_out_message_names:
  "embeds (timed_out_message tm port timeout) (show_nat port)"
  "embeds (timed_out_message tm port timeout) (ms tm timeout)"
  unfolding timed_out_message_def
  by (rule embeds_mid, rule embeds_end [of "_ @ _ @ _", simplified])

text \<open>Timings for the examples: \<^verbatim>\<open>ms\<close> of a duration under a second.\<close>

definition never_open :: "nat \<Rightarrow> timing" where
  "never_open probe =
     \<lparr>isPortReachable = (\<lambda>port t. False), probe_ms = (\<lambda>t. probe), timer_lag = (\<lambda>t. 0),
      ms = (\<lambda>d. show_nat (nat d) @ ''ms'')\<rparr>"

definition open_from :: "int \<Rightarrow> timing" where
  "open_from t0 =
     \<lparr>isPortReachable = (\<lambda>port t. t0 \<le> t), probe_ms = (\<lambda>t. 0), timer_lag = (\<lambda>t. 0),
      ms = (\<lambda>d. show_nat (nat d) @ ''ms'')\<rparr>"

text \<open>
  C6 as stated fails in its bound on the time of failure: the deadline is tested only
  after a probe has answered, and a probe takes time. With a timeout of 250 ms and a
  probe that answers "unreachable" after 500 ms, the first test of the deadline is at
  500 ms, so the failure comes 250 ms after the deadline, more than one poll interval.
\<close>

theorem checkForPort_slow_probe_counterexample:
  "checkForPort (never_open 500) 3000 250 0 =
     (Inl (Error ''Detecting port 3000 timed out after 250ms''), 500) \<and>
   \<not> ((500 :: int) - 0 \<le> 250 + 100)"
proof -
  have "checkForPort (never_open 500) 3000 250 0 =
     (Inl (Error ''Detecting port 3000 timed out after 250ms''), 500)"
    by code_simp
  then show ?thesis by simp
qed

text \<open>
  C6 (amended): the poller is a total function, so it never hangs. A probe that finds the
  port reachable returns success at once; a probe that does not, with the deadline not
  yet passed, is followed by the next probe 100 ms (plus the timer's lateness) after it
  answered. On a port that never becomes reachable the poller fails with the timeout
  error, whose message names the port and the duration. Whenever it fails, the time
  elapsed since the first attempt exceeds the timeout, and it exceeds it by no more than
  one 100 ms poll interval plus the longest probe and the timer's greatest lateness (by
  no more than 100 ms when probes answer at once and the timer is exact).
\<close>

theorem checkForPort_polling:
  "(isPortReachable tm port now \<longrightarrow>
      checkForPort_loop tm port timeout start now = (Inr (), now + int (probe_ms tm now))) \<and>
   (\<not> isPortReachable tm port now \<and> now + int (probe_ms tm now) - start \<le> timeout \<longrightarrow>
      checkForPort_loop tm port timeout start now =
        checkForPort_loop tm port timeout start
          (now + int (probe_ms tm now) + 100 + int (timer_lag tm (now + int (probe_ms tm now))))) \<and>
   ((\<forall>t. \<not> isPortReachable tm port t) \<longrightarrow>
      (\<exists>t. checkForPort tm port timeout start =
         (Inl (Error (timed_out_message tm port timeout)), t))) \<and>
   (\<forall>e t. checkForPort tm port timeout start = (Inl e, t) \<longrightarrow>
      timeout < t - start \<and> e = Error (timed_out_message tm port timeout) \<and>
      (0 \<le> timeout \<and> (\<forall>u. probe_ms tm u \<le> P) \<and> (\<forall>u. timer_lag tm u \<le> J) \<longrightarrow>
         t - start \<le> timeout + 100 + int J + int P)) \<and>
   embeds (timed_out_message tm port timeout) (show_nat port) \<and>
   embeds (timed_out_message tm port timeout) (ms tm timeout)"
proof -
  have bound: "t - start \<le> timeout + 100 + int J + int P"
    if "checkForPort tm port timeout start = (Inl e, t)" "0 \<le> timeout"
      "\<forall>u. probe_ms tm u \<le> P" "\<forall>u. timer_lag tm u \<le> J" for e t
    using loop_failure_bound [of tm port timeout start start e t P J] that
    by (simp add: checkForPort_def)
  show ?thesis
    using loop_reachable [of tm port now timeout start]
      loop_retry [of tm port now start timeout]
      loop_never_reachable [of tm port timeout start start]
      loop_failure_late [of tm port timeout start start] bound
      timed_out_message_names [of tm port timeout]
    unfolding checkForPort_def [symmetric] by blast
qed

theorem checkForPort_polling_witness:
  "checkForPort (never_open 0) 3000 250 0 =
     (Inl (Error ''Detecting port 3000 timed out after 250ms''), 300) \<and>
   (250 :: int) < 300 - 0 \<and> (300 :: int) - 0 \<le> 250 + 100 + int 0 + int 0 \<and>
   isPortReachable (open_from 150) 3000 200 \<and>
   checkForPort_loop (open_from 150) 3000 250 0 200 =
     (Inr (), 200 + int (probe_ms (open_from 150) 200)) \<and>
   \<not> isPortReachable (open_from 150) 3000 100 \<and>
   checkForPort_loop (open_from 150) 3000 250 0 100 =
     checkForPort_loop (open_from 150) 3000 250 0
       (100 + int (probe_ms (open_from 150) 100) + 100 +
        int (timer_lag (open_from 150) (100 + int (probe_ms (open_from 150) 100))))"
proof -
  have run: "checkForPort (never_open 0) 3000 250 0 =
     (Inl (Error ''Detecting port 3000 timed out after 250ms''), 300)"
    by code_simp
  have exact: "0 \<le> (250::int) \<and> (\<forall>u. probe_ms (never_open 0) u \<le> 0) \<and>
      (\<forall>u. timer_lag (never_open 0) u \<le> 0)"
    by (simp add: never_open_def)
  note late = checkForPort_polling [of "never_open 0" 3000 0 250 0 0 0, THEN conjunct2,
      THEN conjunct2, THEN conjunct2, THEN conjunct1, rule_format, OF run]
  have up: "isPortReachable (open_from 150) 3000 200"
    and down: "\<not> isPortReachable (open_from 150) 3000 100 \<and>
      100 + int (probe_ms (open_from 150) 100) - 0 \<le> 250"
    by (simp_all add: open_from_def)
  note hit = checkForPort_polling [of "open_from 150" 3000 200 250 0, THEN conjunct1,
      rule_format, OF up]
  note again = checkForPort_polling [of "open_from 150" 3000 100 250 0, THEN conjunct2,
      THEN conjunct1, rule_format, OF down]
  from late have after: "(250 :: int) < 300 - 0" by (rule conjunct1)
  from late have "0 \<le> (250::int) \<and> (\<forall>u. probe_ms (never_open 0) u \<le> 0) \<and>
      (\<forall>u. timer_lag (never_open 0) u \<le> 0) \<longrightarrow> (300 :: int) - 0 \<le> 250 + 100 + int 0 + int 0"
    by (rule conjunct2 [THEN conjunct2])
  with exact have within: "(300 :: int) - 0 \<le> 250 + 100 + int 0 + int 0" by (rule rev_mp)
  from down have down': "\<not> isPortReachable (open_from 150) 3000 100" by (rule conjunct1)
  show ?thesis
    by (intro conjI run after within up hit down' again)
qed

section \<open>Dependency tracing: compile\<close>

text \<open>
  File contents are texts. What \<^verbatim>\<open>readFileSync\<close> and a drained stream give is a
  \<^verbatim>\<open>Buffer\<close>, which is truthy even when empty; a string is truthy when it is not
  empty. \<^verbatim>\<open>toString\<close> gives the text.
\<close>

datatype source = Str string | Buf string

fun truthy_source :: "source \<Rightarrow> bool" where
  "truthy_source (Str s) = (s \<noteq> [])"
| "truthy_source (Buf b) = True"

fun toString :: "source \<Rightarrow> string" where
  "toString (Str s) = s"
| "toString (Buf b) = b"

text \<open>
  A \<^verbatim>\<open>File\<close> is a \<^verbatim>\<open>FileBlob\<close> of content or a \<^verbatim>\<open>FileFsRef\<close> to a
  path on disk, each with its mode (\<open>None\<close> where the constructor is left to its
  default). A \<^verbatim>\<open>Files\<close> object is its list of properties in insertion order.
\<close>

datatype File = FileBlob source "nat option" | FileFsRef path "nat option"

type_synonym Files = "(string \<times> File) list"

text \<open>
  The tracer's two caches, the set of entry files in insertion order, and a log of the
  calls the read hook makes to the file system.
\<close>

datatype fs_call = ReadFileSync path | LstatSync path

record trace_state =
  inputFiles :: "path list"
  sourceCache :: "string \<rightharpoonup> source option"
  fsCache :: "string \<rightharpoonup> File"
  fsLog :: "fs_call list"

text \<open>
  \<^verbatim>\<open>nodeFileTrace\<close> is the module-graph walker of another package. All the model
  fixes of it is how it can use the hook: it asks for the content of a path and goes on
  with what the hook returns (\<^verbatim>\<open>null\<close> is \<open>None\<close>) or throws, any number of
  times, and ends with its file list and warnings, or throws. A warning is its optional
  stack text.
\<close>

type_synonym warning = "string option"

datatype walk =
  Done "path list" "warning list"
| Throw error
| ReadFile path "error + string option \<Rightarrow> walk"

record tracer_env =
  fs :: node_fs
  np :: node_path
  glob :: "string \<Rightarrow> path \<Rightarrow> error + Files"
  fromStream :: "File \<Rightarrow> error + string"
  nodeFileTrace :: "path list \<Rightarrow> path \<Rightarrow> patterns option \<Rightarrow> walk"

text \<open>The \<^verbatim>\<open>catch\<close> block of the hook.\<close>

definition readFile_catch ::
  "string \<Rightarrow> error \<Rightarrow> trace_state \<Rightarrow> (error + string option) \<times> trace_state" where
  "readFile_catch relPath e st =
     (if code e = Some ''ENOENT'' \<or> code e = Some ''EISDIR''
      then (Inr None, st\<lparr>sourceCache := (sourceCache st)(relPath \<mapsto> None)\<rparr>)
      else (Inl e, st))"

text \<open>The \<^verbatim>\<open>try\<close> block of the hook: the real read.\<close>

definition readFile_try ::
  "tracer_env \<Rightarrow> string \<Rightarrow> path \<Rightarrow> trace_state \<Rightarrow> (error + string option) \<times> trace_state" where
  "readFile_try env relPath fsPath st =
     (let st1 = st\<lparr>fsLog := fsLog st @ [ReadFileSync fsPath]\<rparr> in
      case readFileSync (fs env) fsPath of
        Inl e \<Rightarrow> readFile_catch relPath e st1
      | Inr content \<Rightarrow>
          (let st2 = st1\<lparr>fsLog := fsLog st1 @ [LstatSync fsPath]\<rparr> in
           case lstatSync (fs env) fsPath of
             Inl e \<Rightarrow> readFile_catch relPath e st2
           | Inr mode \<Rightarrow>
               (Inr (Some (toString (Buf content))),
                st2\<lparr>fsCache := (fsCache st2)(relPath \<mapsto> FileBlob (Buf content) (Some mode)),
                    sourceCache := (sourceCache st2)(relPath \<mapsto> Some (Buf content))\<rparr>)))"

text \<open>
  The hook. \<^verbatim>\<open>sourceCache.get(relPath)\<close> is \<open>None\<close> for \<^verbatim>\<open>undefined\<close>,
  \<open>Some None\<close> for \<^verbatim>\<open>null\<close> and \<open>Some (Some c)\<close> for content.
\<close>

definition readFile ::
  "tracer_env \<Rightarrow> path \<Rightarrow> trace_state \<Rightarrow> path \<Rightarrow> (error + string option) \<times> trace_state" where
  "readFile env workPath st fsPath =
     (let relPath = relative (np env) workPath fsPath in
      case sourceCache st relPath of
        Some (Some cached) \<Rightarrow>
          if truthy_source cached then (Inr (Some (toString cached)), st)
          else readFile_try env relPath fsPath st
      | Some None \<Rightarrow> (Inr None, st)
      | None \<Rightarrow> readFile_try env relPath fsPath st)"

text \<open>The state after the hook has answered a list of lookups, one after the other.\<close>

fun lookups :: "tracer_env \<Rightarrow> path \<Rightarrow> trace_state \<Rightarrow> path list \<Rightarrow> trace_state" where
  "lookups env workPath st [] = st"
| "lookups env workPath st (p # ps) = lookups env workPath (snd (readFile env workPath st p)) ps"

lemma readFile_keeps_null:
  "sourceCache st k = Some None \<Longrightarrow> sourceCache (snd (readFile env workPath st p)) k = Some None"
  by (auto simp: readFile_def readFile_try_def readFile_catch_def Let_def
      split: option.splits sum.splits)

lemma lookups_keep_null:
  "sourceCache st k = Some None \<Longrightarrow> sourceCache (lookups env workPath st ps) k = Some None"
  by (induction ps arbitrary: st) (simp_all add: readFile_keeps_null)

lemma readFile_null:
  "sourceCache st (relative (np env) workPath p) = Some None \<Longrightarrow>
   readFile env workPath st p = (Inr None, st)"
  by (simp add: readFile_def)

lemma readFile_not_found_cached:
  "fst (readFile env workPath st p) = Inr None \<Longrightarrow>
   sourceCache (snd (readFile env workPath st p)) (relative (np env) workPath p) = Some None"
  by (auto simp: readFile_def readFile_try_def readFile_catch_def Let_def
      split: option.splits sum.splits if_splits)


text \<open>The two file-system calls of the \<^verbatim>\<open>try\<close> block, as one outcome.\<close>

definition real_read :: "tracer_env \<Rightarrow> path \<Rightarrow> error + string \<times> nat" where
  "real_read env fsPath =
     (case readFileSync (fs env) fsPath of
        Inl e \<Rightarrow> Inl e
      | Inr content \<Rightarrow>
          (case lstatSync (fs env) fsPath of Inl e \<Rightarrow> Inl e | Inr mode \<Rightarrow> Inr (content, mode)))"

text \<open>The cache decides nothing: no entry, or content that is falsy.\<close>

definition cache_miss :: "trace_state \<Rightarrow> string \<Rightarrow> bool" where
  "cache_miss st relPath =
     (case sourceCache st relPath of
        None \<Rightarrow> True
      | Some None \<Rightarrow> False
      | Some (Some cached) \<Rightarrow> \<not> truthy_source cached)"

lemma readFile_miss:
  "cache_miss st (relative (np env) workPath p) \<Longrightarrow>
   readFile env workPath st p = readFile_try env (relative (np env) workPath p) p st"
  by (auto simp: readFile_def cache_miss_def split: option.splits)

lemma readFile_try_ok:
  "real_read env p = Inr (content, mode) \<Longrightarrow>
   readFile_try env r p st =
     (Inr (Some content),
      st\<lparr>fsLog := fsLog st @ [ReadFileSync p, LstatSync p],
         fsCache := (fsCache st)(r \<mapsto> FileBlob (Buf content) (Some mode)),
         sourceCache := (sourceCache st)(r \<mapsto> Some (Buf content))\<rparr>)"
  by (auto simp: readFile_try_def real_read_def Let_def split: sum.splits)

lemma readFile_try_absent:
  "real_read env p = Inl e \<Longrightarrow> code e = Some ''ENOENT'' \<or> code e = Some ''EISDIR'' \<Longrightarrow>
   fst (readFile_try env r p st) = Inr None \<and>
   sourceCache (snd (readFile_try env r p st)) = (sourceCache st)(r \<mapsto> None) \<and>
   fsCache (snd (readFile_try env r p st)) = fsCache st"
  by (auto simp: readFile_try_def real_read_def readFile_catch_def Let_def split: sum.splits)

lemma readFile_try_fatal:
  "real_read env p = Inl e \<Longrightarrow> \<not> (code e = Some ''ENOENT'' \<or> code e = Some ''EISDIR'') \<Longrightarrow>
   fst (readFile_try env r p st) = Inl e \<and>
   sourceCache (snd (readFile_try env r p st)) = sourceCache st \<and>
   fsCache (snd (readFile_try env r p st)) = fsCache st"
  by (auto simp: readFile_try_def real_read_def readFile_catch_def Let_def split: sum.splits)

lemma readFile_again:
  assumes "fst (readFile env workPath st p) = Inr None"
  shows "readFile env workPath (lookups env workPath (snd (readFile env workPath st p)) qs) p =
     (Inr None, lookups env workPath (snd (readFile env workPath st p)) qs)"
  by (rule readFile_null, rule lookups_keep_null, rule readFile_not_found_cached, rule assms)

text \<open>
  C1: the read hook is a lookup with three states. Where the source cache holds content
  for the path (a \<open>Buf\<close>, or any truthy content) the hook returns that content and
  changes nothing. Where the cache holds \<^verbatim>\<open>null\<close> the hook returns
  \<^verbatim>\<open>null\<close> and changes nothing, the log of file-system calls included.
  Otherwise it reads: on success it returns the content and stores it in the source cache
  and, as a \<open>FileBlob\<close> with the mode, in the file-system cache; on an error with code
  \<^verbatim>\<open>ENOENT\<close> or \<^verbatim>\<open>EISDIR\<close> it stores \<^verbatim>\<open>null\<close> and returns
  \<^verbatim>\<open>null\<close>; any other error is thrown, the caches unchanged. Once a lookup has
  returned \<^verbatim>\<open>null\<close>, the same lookup after any further lookups returns
  \<^verbatim>\<open>null\<close> and leaves the state, so the log, as it is.
\<close>

theorem readFile_three_state:
  "(sourceCache st (relative (np env) workPath p) = Some (Some cached) \<and> truthy_source cached \<longrightarrow>
      readFile env workPath st p = (Inr (Some (toString cached)), st)) \<and>
   (sourceCache st (relative (np env) workPath p) = Some (Some (Buf bytes)) \<longrightarrow>
      readFile env workPath st p = (Inr (Some bytes), st)) \<and>
   (sourceCache st (relative (np env) workPath p) = Some None \<longrightarrow>
      readFile env workPath st p = (Inr None, st)) \<and>
   (cache_miss st (relative (np env) workPath p) \<and> real_read env p = Inr (content, mode) \<longrightarrow>
      readFile env workPath st p =
        (Inr (Some content),
         st\<lparr>fsLog := fsLog st @ [ReadFileSync p, LstatSync p],
            fsCache := (fsCache st)(relative (np env) workPath p \<mapsto> FileBlob (Buf content) (Some mode)),
            sourceCache := (sourceCache st)(relative (np env) workPath p \<mapsto> Some (Buf content))\<rparr>)) \<and>
   (cache_miss st (relative (np env) workPath p) \<and> real_read env p = Inl e \<and>
    (code e = Some ''ENOENT'' \<or> code e = Some ''EISDIR'') \<longrightarrow>
      fst (readFile env workPath st p) = Inr None \<and>
      sourceCache (snd (readFile env workPath st p)) =
        (sourceCache st)(relative (np env) workPath p \<mapsto> None) \<and>
      fsCache (snd (readFile env workPath st p)) = fsCache st) \<and>
   (cache_miss st (relative (np env) workPath p) \<and> real_read env p = Inl e \<and>
    \<not> (code e = Some ''ENOENT'' \<or> code e = Some ''EISDIR'') \<longrightarrow>
      fst (readFile env workPath st p) = Inl e \<and>
      sourceCache (snd (readFile env workPath st p)) = sourceCache st \<and>
      fsCache (snd (readFile env workPath st p)) = fsCache st) \<and>
   (fst (readFile env workPath st p) = Inr None \<longrightarrow>
      (\<forall>qs. readFile env workPath (lookups env workPath (snd (readFile env workPath st p)) qs) p =
         (Inr None, lookups env workPath (snd (readFile env workPath st p)) qs)))"
proof -
  have hit: "sourceCache st (relative (np env) workPath p) = Some (Some c) \<Longrightarrow> truthy_source c \<Longrightarrow>
      readFile env workPath st p = (Inr (Some (toString c)), st)" for c
    by (simp add: readFile_def)
  from hit [of "Buf bytes"] have buf:
    "sourceCache st (relative (np env) workPath p) = Some (Some (Buf bytes)) \<Longrightarrow>
      readFile env workPath st p = (Inr (Some bytes), st)"
    by simp
  show ?thesis
    using hit [of cached] buf readFile_null [of st env workPath p]
      readFile_miss [of st env workPath p]
      readFile_try_ok [of env p content mode "relative (np env) workPath p" st]
      readFile_try_absent [of env p e "relative (np env) workPath p" st]
      readFile_try_fatal [of env p e "relative (np env) workPath p" st]
      readFile_again [of env workPath st p]
    by (intro conjI impI allI) (simp_all del: fun_upd_apply)
qed


subsection \<open>The entry set, the walk and the prepared files\<close>

text \<open>
  \<^verbatim>\<open>if (config.includeFiles)\<close> skips an absent value and the empty string; a
  string is one pattern, an array is its patterns.
\<close>

definition include_patterns :: "config \<Rightarrow> string list" where
  "include_patterns cfg =
     (case includeFiles cfg of
        None \<Rightarrow> []
      | Some (One s) \<Rightarrow> if s = [] then [] else [s]
      | Some (Many ps) \<Rightarrow> ps)"

text \<open>\<^verbatim>\<open>Set.add\<close> on the insertion-ordered set.\<close>

definition set_add :: "'a \<Rightarrow> 'a list \<Rightarrow> 'a list" where
  "set_add p ps = (if p \<in> set ps then ps else ps @ [p])"

text \<open>
  The callback run for one matched file. The streams of one pattern are drained
  concurrently; the model takes them to complete in the order of the keys.
\<close>

definition include_file ::
  "tracer_env \<Rightarrow> path \<Rightarrow> trace_state \<Rightarrow> string \<times> File \<Rightarrow> error + trace_state" where
  "include_file env workPath st fe =
     (let st1 = st\<lparr>fsCache := (fsCache st)(fst fe \<mapsto> snd fe)\<rparr> in
      case fromStream env (snd fe) of
        Inl e \<Rightarrow> Inl e
      | Inr data \<Rightarrow>
          Inr (st1\<lparr>sourceCache := (sourceCache st1)(fst fe \<mapsto> Some (Buf data)),
                   inputFiles := set_add (resolve (np env) workPath (fst fe)) (inputFiles st1)\<rparr>))"

fun include_files ::
  "tracer_env \<Rightarrow> path \<Rightarrow> trace_state \<Rightarrow> Files \<Rightarrow> error + trace_state" where
  "include_files env workPath st [] = Inr st"
| "include_files env workPath st (fe # rest) =
     (case include_file env workPath st fe of
        Inl e \<Rightarrow> Inl e
      | Inr st' \<Rightarrow> include_files env workPath st' rest)"

fun include_globs ::
  "tracer_env \<Rightarrow> path \<Rightarrow> trace_state \<Rightarrow> string list \<Rightarrow> error + trace_state" where
  "include_globs env workPath st [] = Inr st"
| "include_globs env workPath st (pattern # rest) =
     (case glob env pattern workPath of
        Inl e \<Rightarrow> Inl e
      | Inr matched \<Rightarrow>
          (case include_files env workPath st matched of
             Inl e \<Rightarrow> Inl e
           | Inr st' \<Rightarrow> include_globs env workPath st' rest))"

text \<open>Lines 27 to 51: the state with which the walk starts.\<close>

definition compile_includes ::
  "tracer_env \<Rightarrow> path \<Rightarrow> path \<Rightarrow> config \<Rightarrow> error + trace_state" where
  "compile_includes env workPath entrypointPath cfg =
     include_globs env workPath
       \<lparr>inputFiles = [entrypointPath], sourceCache = Map.empty, fsCache = Map.empty, fsLog = []\<rparr>
       (include_patterns cfg)"

text \<open>The walk, every request of it answered by the hook.\<close>

primrec run_walk ::
  "tracer_env \<Rightarrow> path \<Rightarrow> walk \<Rightarrow> trace_state \<Rightarrow> error + (path list \<times> warning list \<times> trace_state)" where
  "run_walk env workPath (Done fileList warnings) = (\<lambda>st. Inr (fileList, warnings, st))"
| "run_walk env workPath (Throw e) = (\<lambda>st. Inl e)"
| "run_walk env workPath (ReadFile fsPath next_step) =
     (\<lambda>st. case readFile env workPath st fsPath of
        (answer, st') \<Rightarrow> run_walk env workPath (next_step answer) st')"

text \<open>Lines 87 to 96: one \<^verbatim>\<open>File\<close> for every path of the file list.\<close>

definition prepare_entry :: "tracer_env \<Rightarrow> path \<Rightarrow> trace_state \<Rightarrow> string \<Rightarrow> error + File" where
  "prepare_entry env workPath st path =
     (case fsCache st path of
        Some entry \<Rightarrow> Inr entry
      | None \<Rightarrow>
          (let fsPath = resolve (np env) workPath path in
           case lstatSync (fs env) fsPath of
             Inl e \<Rightarrow> Inl e
           | Inr mode \<Rightarrow>
               (case readFileSync (fs env) fsPath of
                  Inl e \<Rightarrow> Inl e
                | Inr content \<Rightarrow> Inr (FileBlob (Buf content) (Some mode)))))"

fun prepare :: "tracer_env \<Rightarrow> path \<Rightarrow> trace_state \<Rightarrow> Files \<Rightarrow> path list \<Rightarrow> error + Files" where
  "prepare env workPath st preparedFiles [] = Inr preparedFiles"
| "prepare env workPath st preparedFiles (path # rest) =
     (case prepare_entry env workPath st path of
        Inl e \<Rightarrow> Inl e
      | Inr entry \<Rightarrow> prepare env workPath st (AList.update path entry preparedFiles) rest)"

definition compile ::
  "tracer_env \<Rightarrow> path \<Rightarrow> path \<Rightarrow> config \<Rightarrow> error + (Files \<times> path list)" where
  "compile env workPath entrypointPath cfg =
     (case compile_includes env workPath entrypointPath cfg of
        Inl e \<Rightarrow> Inl e
      | Inr st \<Rightarrow>
          (case run_walk env workPath
                  (nodeFileTrace env (inputFiles st) workPath (excludeFiles cfg)) st of
             Inl e \<Rightarrow> Inl e
           | Inr (fileList, warnings, st') \<Rightarrow>
               (case prepare env workPath st' [] fileList of
                  Inl e \<Rightarrow> Inl e
                | Inr preparedFiles \<Rightarrow> Inr (preparedFiles, fileList))))"

text \<open>
  What the claims need of the walker: that the file list it ends with holds its entry
  files, each by its path relative to the base.
\<close>

primrec reports :: "path set \<Rightarrow> walk \<Rightarrow> bool" where
  "reports R (Done fileList warnings) = (R \<subseteq> set fileList)"
| "reports R (Throw e) = True"
| "reports R (ReadFile fsPath next_step) = (\<forall>answer. reports R (next_step answer))"

definition reports_entries :: "tracer_env \<Rightarrow> path \<Rightarrow> bool" where
  "reports_entries env workPath =
     (\<forall>entries ignore.
        reports (relative (np env) workPath ` set entries) (nodeFileTrace env entries workPath ignore))"

text \<open>
  The glob patterns of \<^verbatim>\<open>includeFiles\<close> in the words of the specification, for
  comparison with the patterns the loop runs over: the string itself, or every element
  of the array. A file is matched when the glob of one of these patterns holds it.
\<close>

definition declared_patterns :: "config \<Rightarrow> string list" where
  "declared_patterns cfg =
     (case includeFiles cfg of None \<Rightarrow> [] | Some (One s) \<Rightarrow> [s] | Some (Many ps) \<Rightarrow> ps)"

definition matched :: "tracer_env \<Rightarrow> path \<Rightarrow> config \<Rightarrow> (string \<times> File) set" where
  "matched env workPath cfg =
     {fe. \<exists>pattern \<in> set (declared_patterns cfg). \<exists>found.
        glob env pattern workPath = Inr found \<and> fe \<in> set found}"

lemma include_patterns_declared:
  "includeFiles cfg \<noteq> Some (One []) \<Longrightarrow> include_patterns cfg = declared_patterns cfg"
  by (auto simp: include_patterns_def declared_patterns_def split: option.splits patterns.splits)

definition registered :: "(string \<times> File) set \<Rightarrow> tracer_env \<Rightarrow> path \<Rightarrow> trace_state \<Rightarrow> string \<Rightarrow> bool" where
  "registered G env workPath st file =
     ((\<exists>entry data. fsCache st file = Some entry \<and> (file, entry) \<in> G \<and>
         fromStream env entry = Inr data \<and> sourceCache st file = Some (Some (Buf data))) \<and>
      resolve (np env) workPath file \<in> set (inputFiles st))"

lemma set_set_add: "set (set_add p ps) = insert p (set ps)"
  by (auto simp: set_add_def)

lemma include_file_state:
  assumes "include_file env workPath st fe = Inr st'"
  shows "fsCache st' = (fsCache st)(fst fe \<mapsto> snd fe)"
    and "\<exists>data. fromStream env (snd fe) = Inr data \<and>
           sourceCache st' = (sourceCache st)(fst fe \<mapsto> Some (Buf data))"
    and "set (inputFiles st') = insert (resolve (np env) workPath (fst fe)) (set (inputFiles st))"
  using assms
  by (auto simp: include_file_def Let_def set_set_add split: sum.splits)

lemma include_file_registered:
  assumes "include_file env workPath st fe = Inr st'" "fe \<in> G"
  shows "registered G env workPath st' (fst fe)"
    and "registered G env workPath st file \<Longrightarrow> registered G env workPath st' file"
proof -
  from include_file_state [OF assms(1)] obtain data where
    c: "fsCache st' = (fsCache st)(fst fe \<mapsto> snd fe)"
    and d: "fromStream env (snd fe) = Inr data"
    and s: "sourceCache st' = (sourceCache st)(fst fe \<mapsto> Some (Buf data))"
    and i: "set (inputFiles st') = insert (resolve (np env) workPath (fst fe)) (set (inputFiles st))"
    by blast
  from assms(2) have fe: "(fst fe, snd fe) \<in> G" by simp
  show "registered G env workPath st' (fst fe)"
    using fe d by (simp add: registered_def c s i)
  show "registered G env workPath st' file" if "registered G env workPath st file"
    using that fe d by (cases "file = fst fe") (auto simp: registered_def c s i)
qed

lemma include_files_registered:
  "include_files env workPath st found = Inr st' \<Longrightarrow> set found \<subseteq> G \<Longrightarrow>
   (\<forall>file. registered G env workPath st file \<longrightarrow> registered G env workPath st' file) \<and>
   (\<forall>fe \<in> set found. registered G env workPath st' (fst fe))"
proof (induction found arbitrary: st)
  case Nil
  then show ?case by simp
next
  case (Cons fe rest)
  from Cons.prems(1) obtain st1 where
    one: "include_file env workPath st fe = Inr st1"
    and more: "include_files env workPath st1 rest = Inr st'"
    by (auto split: sum.splits)
  from Cons.prems(2) have "fe \<in> G" "set rest \<subseteq> G" by auto
  with Cons.IH [OF more] include_file_registered [OF one]
  show ?case by auto
qed

lemma include_globs_registered:
  "include_globs env workPath st ps = Inr st' \<Longrightarrow>
   \<forall>pattern \<in> set ps. \<forall>found. glob env pattern workPath = Inr found \<longrightarrow> set found \<subseteq> G \<Longrightarrow>
   (\<forall>file. registered G env workPath st file \<longrightarrow> registered G env workPath st' file) \<and>
   (\<forall>pattern \<in> set ps. \<forall>found. glob env pattern workPath = Inr found \<longrightarrow>
      (\<forall>fe \<in> set found. registered G env workPath st' (fst fe)))"
proof (induction ps arbitrary: st)
  case Nil
  then show ?case by simp
next
  case (Cons pattern rest)
  from Cons.prems(1) obtain found st1 where
    g: "glob env pattern workPath = Inr found"
    and one: "include_files env workPath st found = Inr st1"
    and more: "include_globs env workPath st1 rest = Inr st'"
    by (auto split: sum.splits)
  from Cons.prems(2) g have sub: "set found \<subseteq> G" by simp
  from Cons.prems(2) have rest: "\<forall>pattern \<in> set rest. \<forall>found.
      glob env pattern workPath = Inr found \<longrightarrow> set found \<subseteq> G"
    by simp
  note a = include_files_registered [OF one sub]
  note b = Cons.IH [OF more rest]
  show ?case
  proof (intro conjI allI impI ballI)
    fix f assume "registered G env workPath st f"
    with a b show "registered G env workPath st' f" by blast
  next
    fix q found' fe
    assume q: "q \<in> set (pattern # rest)" and g': "glob env q workPath = Inr found'"
      and fe: "fe \<in> set found'"
    show "registered G env workPath st' (fst fe)"
    proof (cases "q = pattern")
      case True
      with g g' fe have "fe \<in> set found" by simp
      with a b show ?thesis by blast
    next
      case False
      with q have "q \<in> set rest" by simp
      with b g' fe show ?thesis by blast
    qed
  qed
qed


lemma readFile_keeps_buffer:
  "sourceCache st k = Some (Some (Buf d)) \<Longrightarrow>
   sourceCache (snd (readFile env workPath st p)) k = Some (Some (Buf d)) \<and>
   fsCache (snd (readFile env workPath st p)) k = fsCache st k"
  by (auto simp: readFile_def readFile_try_def readFile_catch_def Let_def
      split: option.splits sum.splits)

lemma run_walk_keeps_buffer:
  "run_walk env workPath w st = Inr (fileList, warnings, st') \<Longrightarrow>
   sourceCache st k = Some (Some (Buf d)) \<Longrightarrow>
   sourceCache st' k = Some (Some (Buf d)) \<and> fsCache st' k = fsCache st k"
proof (induction w arbitrary: st)
  case (Done fl ws)
  then show ?case by simp
next
  case (Throw e)
  then show ?case by simp
next
  case (ReadFile fsPath next_step)
  from ReadFile.prems(1) obtain answer st1 where
    step: "readFile env workPath st fsPath = (answer, st1)"
    and rest: "run_walk env workPath (next_step answer) st1 = Inr (fileList, warnings, st')"
    by (auto split: prod.splits sum.splits)
  from readFile_keeps_buffer [OF ReadFile.prems(2), of env workPath fsPath] step
  have kept: "sourceCache st1 k = Some (Some (Buf d))" "fsCache st1 k = fsCache st k"
    by simp_all
  from ReadFile.IH [OF _ rest kept(1)] kept(2) show ?case by simp
qed

lemma run_walk_reports:
  "reports R w \<Longrightarrow> run_walk env workPath w st = Inr (fileList, warnings, st') \<Longrightarrow>
   R \<subseteq> set fileList"
proof (induction w arbitrary: st)
  case (Done fl ws)
  then show ?case by simp
next
  case (Throw e)
  then show ?case by simp
next
  case (ReadFile fsPath next_step)
  from ReadFile.prems(2) obtain answer st1 where
    rest: "run_walk env workPath (next_step answer) st1 = Inr (fileList, warnings, st')"
    by (auto split: prod.splits sum.splits)
  from ReadFile.prems(1) have "reports R (next_step answer)" by simp
  from ReadFile.IH [OF _ this rest] show ?case by simp
qed

lemma prepare_cached:
  "prepare env workPath st acc fileList = Inr preparedFiles \<Longrightarrow>
   fsCache st f = Some e \<Longrightarrow> f \<in> set fileList \<or> map_of acc f = Some e \<Longrightarrow>
   map_of preparedFiles f = Some e"
proof (induction fileList arbitrary: acc)
  case Nil
  then show ?case by simp
next
  case (Cons path rest)
  from Cons.prems(1) obtain entry where
    one: "prepare_entry env workPath st path = Inr entry"
    and more: "prepare env workPath st (AList.update path entry acc) rest = Inr preparedFiles"
    by (auto split: sum.splits)
  have "f \<in> set rest \<or> map_of (AList.update path entry acc) f = Some e"
  proof (cases "f = path")
    case True
    with one Cons.prems(2) have "entry = e" by (simp add: prepare_entry_def)
    with True show ?thesis by (simp add: update_conv')
  next
    case False
    with Cons.prems(3) show ?thesis by (auto simp: update_conv')
  qed
  from Cons.IH [OF more Cons.prems(2) this] show ?case .
qed

text \<open>
  Every content the tracer stores in the source cache is a \<open>Buf\<close>, so a cached content
  is always truthy.
\<close>

definition only_buffers :: "trace_state \<Rightarrow> bool" where
  "only_buffers st = (\<forall>k c. sourceCache st k = Some (Some c) \<longrightarrow> (\<exists>b. c = Buf b))"

lemma readFile_only_buffers:
  "only_buffers st \<Longrightarrow> only_buffers (snd (readFile env workPath st p))"
  unfolding only_buffers_def
  by (auto simp: readFile_def readFile_try_def readFile_catch_def Let_def
      split: option.splits sum.splits if_splits)

lemma include_file_only_buffers:
  "include_file env workPath st fe = Inr st' \<Longrightarrow> only_buffers st \<Longrightarrow> only_buffers st'"
  unfolding only_buffers_def
  by (auto simp: include_file_def Let_def split: sum.splits if_splits)

lemma include_files_only_buffers:
  "include_files env workPath st found = Inr st' \<Longrightarrow> only_buffers st \<Longrightarrow> only_buffers st'"
proof (induction found arbitrary: st)
  case Nil
  then show ?case by simp
next
  case (Cons fe rest)
  from Cons.prems(1) obtain st1 where
    one: "include_file env workPath st fe = Inr st1"
    and more: "include_files env workPath st1 rest = Inr st'"
    by (auto split: sum.splits)
  from Cons.IH [OF more include_file_only_buffers [OF one Cons.prems(2)]] show ?case .
qed

lemma include_globs_only_buffers:
  "include_globs env workPath st ps = Inr st' \<Longrightarrow> only_buffers st \<Longrightarrow> only_buffers st'"
proof (induction ps arbitrary: st)
  case Nil
  then show ?case by simp
next
  case (Cons pattern rest)
  from Cons.prems(1) obtain found st1 where
    one: "include_files env workPath st found = Inr st1"
    and more: "include_globs env workPath st1 rest = Inr st'"
    by (auto split: sum.splits)
  from Cons.IH [OF more include_files_only_buffers [OF one Cons.prems(2)]] show ?case .
qed

lemma run_walk_only_buffers:
  "run_walk env workPath w st = Inr (fileList, warnings, st') \<Longrightarrow> only_buffers st \<Longrightarrow>
   only_buffers st'"
proof (induction w arbitrary: st)
  case (Done fl ws)
  then show ?case by simp
next
  case (Throw e)
  then show ?case by simp
next
  case (ReadFile fsPath next_step)
  from ReadFile.prems(1) obtain answer st1 where
    step: "readFile env workPath st fsPath = (answer, st1)"
    and rest: "run_walk env workPath (next_step answer) st1 = Inr (fileList, warnings, st')"
    by (auto split: prod.splits)
  from readFile_only_buffers [OF ReadFile.prems(2), of env workPath fsPath] step
  have "only_buffers st1" by simp
  from ReadFile.IH [OF _ rest this] show ?case by simp
qed

lemma compile_includes_only_buffers:
  "compile_includes env workPath entrypointPath cfg = Inr st \<Longrightarrow> only_buffers st"
  unfolding compile_includes_def
  by (erule include_globs_only_buffers) (simp add: only_buffers_def)

lemma matched_mono:
  "set (declared_patterns cfg) \<subseteq> set (declared_patterns cfg') \<Longrightarrow>
   matched env workPath cfg \<subseteq> matched env workPath cfg'"
  unfolding matched_def by blast

lemma compile_includes_registered:
  assumes "compile_includes env workPath entrypointPath cfg = Inr st"
    and "fe \<in> matched env workPath cfg"
    and "includeFiles cfg \<noteq> Some (One [])"
  shows "registered (matched env workPath cfg) env workPath st (fst fe)"
proof -
  note same = include_patterns_declared [OF assms(3)]
  have sub: "\<forall>pattern \<in> set (include_patterns cfg). \<forall>found.
      glob env pattern workPath = Inr found \<longrightarrow> set found \<subseteq> matched env workPath cfg"
    unfolding matched_def same by blast
  from assms(2) obtain pattern found where
    "pattern \<in> set (include_patterns cfg)" "glob env pattern workPath = Inr found" "fe \<in> set found"
    unfolding matched_def same by blast
  with include_globs_registered [OF assms(1) [unfolded compile_includes_def] sub]
  show ?thesis by blast
qed

lemma compile_prepared:
  assumes c: "compile env workPath entrypointPath cfg = Inr (preparedFiles, watch)"
    and m: "fe \<in> matched env workPath cfg"
    and ne: "includeFiles cfg \<noteq> Some (One [])"
    and r: "reports_entries env workPath"
    and rt: "relative (np env) workPath (resolve (np env) workPath (fst fe)) = fst fe"
  shows "fst fe \<in> set watch \<and>
    (\<exists>e. map_of preparedFiles (fst fe) = Some e \<and> (fst fe, e) \<in> matched env workPath cfg)"
proof -
  from c obtain st warnings st' where
    inc: "compile_includes env workPath entrypointPath cfg = Inr st"
    and walk: "run_walk env workPath
        (nodeFileTrace env (inputFiles st) workPath (excludeFiles cfg)) st = Inr (watch, warnings, st')"
    and prep: "prepare env workPath st' [] watch = Inr preparedFiles"
    by (auto simp: compile_def split: sum.splits prod.splits)
  from compile_includes_registered [OF inc m ne] obtain e data where
    cached: "fsCache st (fst fe) = Some e" "(fst fe, e) \<in> matched env workPath cfg"
      "sourceCache st (fst fe) = Some (Some (Buf data))"
    and entry: "resolve (np env) workPath (fst fe) \<in> set (inputFiles st)"
    unfolding registered_def by blast
  from r have "reports (relative (np env) workPath ` set (inputFiles st))
      (nodeFileTrace env (inputFiles st) workPath (excludeFiles cfg))"
    unfolding reports_entries_def by blast
  from run_walk_reports [OF this walk] entry
  have "relative (np env) workPath (resolve (np env) workPath (fst fe)) \<in> set watch"
    by blast
  with rt have listed: "fst fe \<in> set watch" by simp
  from run_walk_keeps_buffer [OF walk cached(3)] cached(1)
  have "fsCache st' (fst fe) = Some e" by simp
  from prepare_cached [OF prep this] listed have "map_of preparedFiles (fst fe) = Some e"
    by simp
  with listed cached(2) show ?thesis by blast
qed


text \<open>
  C2: let a file be matched by a glob pattern of \<^verbatim>\<open>includeFiles\<close> of a
  configuration, and let a second configuration have at least those patterns (the same,
  or more), its \<^verbatim>\<open>includeFiles\<close> not being the empty string, which is no pattern
  and which the code skips. When the include loop of the second configuration has run,
  the file is registered in the file-system cache with an entry a glob gave for it, the
  content of that entry is in the source cache, and its resolved path is an entry file
  of the walk. When compile returns, the walker reporting its entry files and
  \<^verbatim>\<open>relative\<close> giving back this file from its resolved path, the file is in the
  watch list and in the prepared files, with a glob's entry for it: whether the module
  graph refers to it plays no part, and more patterns do not remove it.
\<close>

theorem compile_retains_included:
  "(file, entry) \<in> matched env workPath cfg \<Longrightarrow>
   set (declared_patterns cfg) \<subseteq> set (declared_patterns cfg') \<Longrightarrow>
   includeFiles cfg' \<noteq> Some (One []) \<Longrightarrow>
   (\<forall>st. compile_includes env workPath entrypointPath cfg' = Inr st \<longrightarrow>
      (\<exists>e data. fsCache st file = Some e \<and> (file, e) \<in> matched env workPath cfg' \<and>
         fromStream env e = Inr data \<and> sourceCache st file = Some (Some (Buf data))) \<and>
      resolve (np env) workPath file \<in> set (inputFiles st)) \<and>
   (\<forall>preparedFiles watch.
      compile env workPath entrypointPath cfg' = Inr (preparedFiles, watch) \<and>
      reports_entries env workPath \<and>
      relative (np env) workPath (resolve (np env) workPath file) = file \<longrightarrow>
      file \<in> set watch \<and>
      (\<exists>e. map_of preparedFiles file = Some e \<and> (file, e) \<in> matched env workPath cfg'))"
proof -
  assume "(file, entry) \<in> matched env workPath cfg"
    and "set (declared_patterns cfg) \<subseteq> set (declared_patterns cfg')"
    and ne: "includeFiles cfg' \<noteq> Some (One [])"
  with matched_mono have m: "(file, entry) \<in> matched env workPath cfg'" by blast
  show ?thesis
    using compile_includes_registered [OF _ m ne, of entrypointPath]
      compile_prepared [OF _ m ne, of entrypointPath]
    unfolding registered_def by simp
qed

definition demo_disk :: node_fs where
  "demo_disk =
     \<lparr>existsSync = (\<lambda>p. p = ''/w/build/node/index.js''),
      isDirectory = (\<lambda>p. Inr False),
      readdirSync = (\<lambda>p. Inl (ErrnoException ''ENOTDIR'')),
      readFileSync = (\<lambda>p.
        if p = ''/w/build/node/index.js'' then Inr ''module.exports = 1''
        else if p = ''/w/locked.js'' then Inl (ErrnoException ''EACCES'')
        else if p = ''/w/lib'' then Inl (ErrnoException ''EISDIR'')
        else Inl (ErrnoException ''ENOENT'')),
      lstatSync = (\<lambda>p.
        if p = ''/w/build/node/index.js'' then Inr 33188
        else Inl (ErrnoException ''ENOENT''))\<rparr>"

definition demo_env :: tracer_env where
  "demo_env =
     \<lparr>fs = demo_disk, np = posix_path,
      glob = (\<lambda>pattern base.
        if pattern = ''assets/**''
        then Inr [(''assets/logo.svg'', FileFsRef ''/w/assets/logo.svg'' (Some 33188))]
        else Inr []),
      fromStream = (\<lambda>f. case f of
          FileFsRef p m \<Rightarrow>
            if p = ''/w/assets/logo.svg'' then Inr ''<svg/>'' else Inl (ErrnoException ''ENOENT'')
        | FileBlob d m \<Rightarrow> Inr (toString d)),
      nodeFileTrace = (\<lambda>entries base ignore.
        ReadFile ''/w/build/node/index.js'' (\<lambda>answer.
          case answer of
            Inl e \<Rightarrow> Throw e
          | Inr content \<Rightarrow>
              ReadFile ''/w/build/node/missing.js'' (\<lambda>answer'.
                case answer' of
                  Inl e \<Rightarrow> Throw e
                | Inr content' \<Rightarrow> Done (map (relative posix_path base) entries) [])))\<rparr>"

definition assets_config :: config where
  "assets_config = \<lparr>zeroConfig = False, includeFiles = Some (One ''assets/**''), excludeFiles = None\<rparr>"

definition assets_public_config :: config where
  "assets_public_config =
     \<lparr>zeroConfig = False, includeFiles = Some (Many [''public/**'', ''assets/**'']),
      excludeFiles = None\<rparr>"



theorem compile_retains_included_witness:
  "(''assets/logo.svg'', FileFsRef ''/w/assets/logo.svg'' (Some 33188)) \<in>
     matched demo_env ''/w'' assets_config \<and>
   set (declared_patterns assets_config) \<subseteq> set (declared_patterns assets_public_config) \<and>
   includeFiles assets_public_config \<noteq> Some (One []) \<and>
   (\<exists>st. compile_includes demo_env ''/w'' ''/w/build/node/index.js'' assets_public_config = Inr st \<and>
      (\<exists>e data. fsCache st ''assets/logo.svg'' = Some e \<and>
         (''assets/logo.svg'', e) \<in> matched demo_env ''/w'' assets_public_config \<and>
         fromStream demo_env e = Inr data \<and>
         sourceCache st ''assets/logo.svg'' = Some (Some (Buf data))) \<and>
      resolve (np demo_env) ''/w'' ''assets/logo.svg'' \<in> set (inputFiles st)) \<and>
   compile demo_env ''/w'' ''/w/build/node/index.js'' assets_public_config =
     Inr ([(''build/node/index.js'', FileBlob (Buf ''module.exports = 1'') (Some 33188)),
           (''assets/logo.svg'', FileFsRef ''/w/assets/logo.svg'' (Some 33188))],
          [''build/node/index.js'', ''assets/logo.svg'']) \<and>
   reports_entries demo_env ''/w'' \<and>
   relative (np demo_env) ''/w'' (resolve (np demo_env) ''/w'' ''assets/logo.svg'') =
     ''assets/logo.svg'' \<and>
   ''assets/logo.svg'' \<in> set [''build/node/index.js'', ''assets/logo.svg''] \<and>
   (\<exists>e. map_of [(''build/node/index.js'', FileBlob (Buf ''module.exports = 1'') (Some 33188)),
           (''assets/logo.svg'', FileFsRef ''/w/assets/logo.svg'' (Some 33188))]
          ''assets/logo.svg'' = Some e \<and>
        (''assets/logo.svg'', e) \<in> matched demo_env ''/w'' assets_public_config)"
proof -
  have m: "(''assets/logo.svg'', FileFsRef ''/w/assets/logo.svg'' (Some 33188)) \<in>
     matched demo_env ''/w'' assets_config"
    by (simp add: matched_def declared_patterns_def assets_config_def demo_env_def)
  have sub: "set (declared_patterns assets_config) \<subseteq> set (declared_patterns assets_public_config)"
    by (simp add: declared_patterns_def assets_config_def assets_public_config_def)
  have ne: "includeFiles assets_public_config \<noteq> Some (One [])"
    by (simp add: assets_public_config_def)
  have inc: "\<exists>st. compile_includes demo_env ''/w'' ''/w/build/node/index.js'' assets_public_config =
      Inr st"
    by (simp add: compile_includes_def include_patterns_def assets_public_config_def
        demo_env_def include_file_def Let_def)
  have run: "compile demo_env ''/w'' ''/w/build/node/index.js'' assets_public_config =
     Inr ([(''build/node/index.js'', FileBlob (Buf ''module.exports = 1'') (Some 33188)),
           (''assets/logo.svg'', FileFsRef ''/w/assets/logo.svg'' (Some 33188))],
          [''build/node/index.js'', ''assets/logo.svg''])"
    by (simp add: compile_def compile_includes_def include_patterns_def
        assets_public_config_def demo_env_def demo_disk_def posix_path_def include_file_def
        set_add_def readFile_def readFile_try_def readFile_catch_def prepare_entry_def Let_def)
  have contract: "reports_entries demo_env ''/w''"
    by (simp add: reports_entries_def demo_env_def split: sum.splits)
  have round: "relative (np demo_env) ''/w'' (resolve (np demo_env) ''/w'' ''assets/logo.svg'') =
     ''assets/logo.svg''"
    by (simp add: demo_env_def posix_path_def)
  note both = compile_retains_included [OF m sub ne, of "''/w/build/node/index.js''"]
  from inc obtain st where
    st: "compile_includes demo_env ''/w'' ''/w/build/node/index.js'' assets_public_config = Inr st"
    by blast
  from both [THEN conjunct1, rule_format, OF st] st have first:
    "\<exists>st. compile_includes demo_env ''/w'' ''/w/build/node/index.js'' assets_public_config = Inr st \<and>
      (\<exists>e data. fsCache st ''assets/logo.svg'' = Some e \<and>
         (''assets/logo.svg'', e) \<in> matched demo_env ''/w'' assets_public_config \<and>
         fromStream demo_env e = Inr data \<and>
         sourceCache st ''assets/logo.svg'' = Some (Some (Buf data))) \<and>
      resolve (np demo_env) ''/w'' ''assets/logo.svg'' \<in> set (inputFiles st)"
    by blast
  from run contract round have pre:
    "compile demo_env ''/w'' ''/w/build/node/index.js'' assets_public_config =
       Inr ([(''build/node/index.js'', FileBlob (Buf ''module.exports = 1'') (Some 33188)),
           (''assets/logo.svg'', FileFsRef ''/w/assets/logo.svg'' (Some 33188))],
          [''build/node/index.js'', ''assets/logo.svg'']) \<and>
     reports_entries demo_env ''/w'' \<and>
     relative (np demo_env) ''/w'' (resolve (np demo_env) ''/w'' ''assets/logo.svg'') =
       ''assets/logo.svg''"
    by (intro conjI)
  note second = both [THEN conjunct2, rule_format, OF pre]
  show ?thesis
    by (intro conjI m sub ne first run contract round second [THEN conjunct1]
        second [THEN conjunct2])
qed

definition fresh_state :: trace_state where
  "fresh_state =
     \<lparr>inputFiles = [''/w/build/node/index.js''], sourceCache = Map.empty, fsCache = Map.empty,
      fsLog = []\<rparr>"

definition cached_state :: trace_state where
  "cached_state =
     fresh_state\<lparr>sourceCache := [''build/node/index.js'' \<mapsto> Some (Buf ''module.exports = 1'')]\<rparr>"

definition absent_state :: trace_state where
  "absent_state = fresh_state\<lparr>sourceCache := [''missing.js'' \<mapsto> None]\<rparr>"

theorem readFile_three_state_witness:
  "readFile demo_env ''/w'' fresh_state ''/w/build/node/index.js'' =
     (Inr (Some ''module.exports = 1''),
      fresh_state\<lparr>fsLog := fsLog fresh_state @
            [ReadFileSync ''/w/build/node/index.js'', LstatSync ''/w/build/node/index.js''],
         fsCache := (fsCache fresh_state)
            (''build/node/index.js'' \<mapsto> FileBlob (Buf ''module.exports = 1'') (Some 33188)),
         sourceCache := (sourceCache fresh_state)
            (''build/node/index.js'' \<mapsto> Some (Buf ''module.exports = 1''))\<rparr>) \<and>
   readFile demo_env ''/w'' cached_state ''/w/build/node/index.js'' =
     (Inr (Some ''module.exports = 1''), cached_state) \<and>
   readFile demo_env ''/w'' absent_state ''/w/missing.js'' = (Inr None, absent_state) \<and>
   fst (readFile demo_env ''/w'' fresh_state ''/w/missing.js'') = Inr None \<and>
   sourceCache (snd (readFile demo_env ''/w'' fresh_state ''/w/missing.js'')) =
     (sourceCache fresh_state)(''missing.js'' \<mapsto> None) \<and>
   readFile demo_env ''/w''
       (lookups demo_env ''/w'' (snd (readFile demo_env ''/w'' fresh_state ''/w/missing.js''))
          [''/w/build/node/index.js''])
       ''/w/missing.js'' =
     (Inr None,
      lookups demo_env ''/w'' (snd (readFile demo_env ''/w'' fresh_state ''/w/missing.js''))
        [''/w/build/node/index.js'']) \<and>
   fst (readFile demo_env ''/w'' fresh_state ''/w/lib'') = Inr None \<and>
   fst (readFile demo_env ''/w'' fresh_state ''/w/locked.js'') = Inl (ErrnoException ''EACCES'')"
proof -
  have rel: "relative (np demo_env) ''/w'' ''/w/build/node/index.js'' = ''build/node/index.js''"
    "relative (np demo_env) ''/w'' ''/w/missing.js'' = ''missing.js''"
    by (simp_all add: demo_env_def posix_path_def)
  have unread: "cache_miss fresh_state (relative (np demo_env) ''/w'' ''/w/build/node/index.js'') \<and>
      real_read demo_env ''/w/build/node/index.js'' = Inr (''module.exports = 1'', 33188)"
    and held: "sourceCache cached_state (relative (np demo_env) ''/w'' ''/w/build/node/index.js'') =
      Some (Some (Buf ''module.exports = 1''))"
    and null: "sourceCache absent_state (relative (np demo_env) ''/w'' ''/w/missing.js'') = Some None"
    and gone: "cache_miss fresh_state (relative (np demo_env) ''/w'' ''/w/missing.js'') \<and>
      real_read demo_env ''/w/missing.js'' = Inl (ErrnoException ''ENOENT'') \<and>
      (code (ErrnoException ''ENOENT'') = Some ''ENOENT'' \<or>
       code (ErrnoException ''ENOENT'') = Some ''EISDIR'')"
    and folder: "cache_miss fresh_state (relative (np demo_env) ''/w'' ''/w/lib'') \<and>
      real_read demo_env ''/w/lib'' = Inl (ErrnoException ''EISDIR'') \<and>
      (code (ErrnoException ''EISDIR'') = Some ''ENOENT'' \<or>
       code (ErrnoException ''EISDIR'') = Some ''EISDIR'')"
    and locked: "cache_miss fresh_state (relative (np demo_env) ''/w'' ''/w/locked.js'') \<and>
      real_read demo_env ''/w/locked.js'' = Inl (ErrnoException ''EACCES'') \<and>
      \<not> (code (ErrnoException ''EACCES'') = Some ''ENOENT'' \<or>
         code (ErrnoException ''EACCES'') = Some ''EISDIR'')"
    by (simp_all add: cache_miss_def fresh_state_def cached_state_def absent_state_def
        real_read_def demo_env_def demo_disk_def posix_path_def)
  note read = readFile_three_state [where st = fresh_state and env = demo_env
      and workPath = "''/w''" and p = "''/w/build/node/index.js''", THEN conjunct2,
      THEN conjunct2, THEN conjunct2, THEN conjunct1, rule_format, OF unread, unfolded rel]
  note reuse = readFile_three_state [where st = cached_state and env = demo_env
      and workPath = "''/w''" and p = "''/w/build/node/index.js''", THEN conjunct2,
      THEN conjunct1, rule_format, OF held]
  note skip = readFile_three_state [where st = absent_state and env = demo_env
      and workPath = "''/w''" and p = "''/w/missing.js''", THEN conjunct2,
      THEN conjunct2, THEN conjunct1, rule_format, OF null]
  note miss = readFile_three_state [where st = fresh_state and env = demo_env
      and workPath = "''/w''" and p = "''/w/missing.js''", THEN conjunct2,
      THEN conjunct2, THEN conjunct2, THEN conjunct2, THEN conjunct1, rule_format, OF gone,
      unfolded rel]
  note again = readFile_three_state [where st = fresh_state and env = demo_env
      and workPath = "''/w''" and p = "''/w/missing.js''", THEN conjunct2,
      THEN conjunct2, THEN conjunct2, THEN conjunct2, THEN conjunct2, THEN conjunct2,
      rule_format, OF miss [THEN conjunct1]]
  note dir = readFile_three_state [where st = fresh_state and env = demo_env
      and workPath = "''/w''" and p = "''/w/lib''", THEN conjunct2,
      THEN conjunct2, THEN conjunct2, THEN conjunct2, THEN conjunct1, rule_format, OF folder]
  note fatal = readFile_three_state [where st = fresh_state and env = demo_env
      and workPath = "''/w''" and p = "''/w/locked.js''", THEN conjunct2,
      THEN conjunct2, THEN conjunct2, THEN conjunct2, THEN conjunct2, THEN conjunct1,
      rule_format, OF locked]
  show ?thesis
    by (intro conjI read reuse skip miss [THEN conjunct1] miss [THEN conjunct2, THEN conjunct1]
        again dir [THEN conjunct1] fatal [THEN conjunct1])
qed

section \<open>The builder: build\<close>

subsection \<open>Options, routes and the result\<close>

record meta =
  isDev :: bool

record build_options =
  files :: Files
  entrypoint :: string
  workPath :: path
  config :: config
  meta :: meta

record route =
  src :: "string option"
  dest :: "string option"
  headers :: "(string \<times> string) list option"
  continue :: "bool option"
  handle :: "string option"

record node_version =
  runtime :: string

text \<open>A packaged lambda: its archive, its handler and its runtime.\<close>

datatype lambda = Lambda string string string

text \<open>The output object holds files and, under \<^verbatim>\<open>render.js\<close>, the lambda.\<close>

datatype output_entry = FileOut File | LambdaOut lambda

record build_result =
  routes :: "route list"
  watch :: "path list"
  "output" :: "(string \<times> output_entry) list"
  distPath :: path

record launcher_options =
  entrypointPath :: string
  bridgePath :: string
  helpersPath :: string
  sourcemapSupportPath :: string
  shouldAddHelpers :: bool

subsection \<open>The module's state\<close>

text \<open>
  \<^verbatim>\<open>nowDevScriptPorts\<close> and \<^verbatim>\<open>nowDevChildProcesses\<close> are the module's two
  registries. A child process is known by its place in the list of the processes spawned
  so far; it has the directory and the \<^verbatim>\<open>PORT\<close> it was started with, the
  entrypoints its \<^verbatim>\<open>exit\<close> listeners delete from the port registry, and whether
  it still runs. \<open>effects\<close> logs what the supervisor does, in order.
\<close>

record process =
  command :: "string list"
  cwd :: path
  env_PORT :: string
  exit_listeners :: "string list"
  running :: bool

datatype effect = SetPort string nat | Spawn nat | OnExit nat string | AddChild nat

record builder_state =
  nowDevScriptPorts :: "string \<rightharpoonup> nat"
  nowDevChildProcesses :: "nat list"
  processes :: "process list"
  effects :: "effect list"

definition initial_state :: builder_state where
  "initial_state =
     \<lparr>nowDevScriptPorts = Map.empty, nowDevChildProcesses = [], processes = [], effects = []\<rparr>"

text \<open>
  The \<^verbatim>\<open>exit\<close> event of a running child: the child runs no more, and each of its
  listeners deletes its entrypoint from the port registry.
\<close>

definition child_exit :: "nat \<Rightarrow> builder_state \<Rightarrow> builder_state" where
  "child_exit pid st =
     (if pid < length (processes st) \<and> running (processes st ! pid)
      then st\<lparr>processes := (processes st)[pid := (processes st ! pid)\<lparr>running := False\<rparr>],
              nowDevScriptPorts :=
                fold (\<lambda>e ports. ports(e := None)) (exit_listeners (processes st ! pid))
                  (nowDevScriptPorts st)\<rparr>
      else st)"

subsection \<open>What the builder calls\<close>

text \<open>
  The helpers of \<^verbatim>\<open>@now/build-utils\<close>, \<^verbatim>\<open>get-port\<close>, the launcher template
  and the reading of the manifest are parameters. \<open>readPackageJson\<close> is
  \<^verbatim>\<open>JSON.parse(readFileSync(pkgPath, 'utf8'))\<close>, \<open>None\<close> for the JSON
  \<^verbatim>\<open>null\<close>; \<open>module_dirname\<close> is \<^verbatim>\<open>__dirname\<close>; \<open>clock\<close> is the
  reading of \<^verbatim>\<open>Date.now()\<close> when the wait for the dev server starts.
\<close>

record build_env =
  tracer :: tracer_env
  download :: "Files \<Rightarrow> path \<Rightarrow> meta \<Rightarrow> error option"
  readPackageJson :: "path \<Rightarrow> error + package_json option"
  getNodeVersion :: "path \<Rightarrow> config \<Rightarrow> error + node_version"
  runNpmInstall :: "path \<Rightarrow> string list \<Rightarrow> error option"
  getPort :: "error + nat"
  timing :: timing
  clock :: int
  runPackageJsonScript :: "path \<Rightarrow> string \<Rightarrow> error + bool"
  glob_mounted :: "string \<Rightarrow> path \<Rightarrow> string \<Rightarrow> error + Files"
  makeNowLauncher :: "launcher_options \<Rightarrow> string"
  module_dirname :: path
  createLambda :: "Files \<Rightarrow> string \<Rightarrow> string \<Rightarrow> error + lambda"

definition DEV_SERVER_PORT_BIND_TIMEOUT :: int where
  "DEV_SERVER_PORT_BIND_TIMEOUT = 300000"

definition LAUNCHER_FILENAME :: string where "LAUNCHER_FILENAME = ''___now_launcher''"
definition BRIDGE_FILENAME :: string where "BRIDGE_FILENAME = ''___now_bridge''"
definition HELPERS_FILENAME :: string where "HELPERS_FILENAME = ''___now_helpers''"
definition SOURCEMAP_SUPPORT_FILENAME :: string where
  "SOURCEMAP_SUPPORT_FILENAME = ''__sourcemap_support''"

subsection \<open>Routes\<close>

text \<open>A template literal renders a missing property as \<^verbatim>\<open>undefined\<close>.\<close>

definition interpolate :: "string option \<Rightarrow> string" where
  "interpolate v = (case v of None \<Rightarrow> ''undefined'' | Some s \<Rightarrow> s)"

definition getDevRoute :: "string \<Rightarrow> nat \<Rightarrow> route \<Rightarrow> route" where
  "getDevRoute srcBase devPort r =
     (let basic = \<lparr>src = Some (srcBase @ interpolate (src r)),
                   dest = Some (''http://localhost:'' @ show_nat devPort @ interpolate (dest r)),
                   headers = None, continue = None, handle = None\<rparr>
      in if headers r \<noteq> None then basic\<lparr>headers := headers r\<rparr> else basic)"

text \<open>\<^verbatim>\<open>mountpoint.replace(/^\.\/?/, '')\<close>\<close>

fun strip_dot :: "string \<Rightarrow> string" where
  "strip_dot (a # b # rest) =
     (if a = CHR ''.'' then (if b = CHR ''/'' then rest else b # rest) else a # b # rest)"
| "strip_dot [a] = (if a = CHR ''.'' then [] else [a])"
| "strip_dot [] = []"

definition srcBase_of :: "string \<Rightarrow> string" where
  "srcBase_of mountpoint =
     (let srcBase = strip_dot mountpoint in
      if length srcBase > 0 then ''/'' @ srcBase else srcBase)"

text \<open>
  The mount-relative source prefix in the words of the specification, for comparison
  with \<open>srcBase_of\<close>: nothing for a project mounted at the work path itself, and
  otherwise a slash and the mount point, written without a leading \<^verbatim>\<open>./\<close>.
\<close>

definition mount_prefix :: "path \<Rightarrow> string" where
  "mount_prefix mountpoint =
     (if mountpoint = ''.'' then []
      else ''/'' @ (if take 2 mountpoint = ''./'' then drop 2 mountpoint else mountpoint))"

text \<open>
  A mount point is ordinary when it is the work path itself (\<^verbatim>\<open>.\<close>) or, after an
  optional leading \<^verbatim>\<open>./\<close>, a non-empty relative path whose first character is not
  a dot: a directory below the work path whose name does not start with a dot.
\<close>

definition ordinary_mountpoint :: "path \<Rightarrow> bool" where
  "ordinary_mountpoint mountpoint =
     (mountpoint = ''.'' \<or>
      (let inner = (if take 2 mountpoint = ''./'' then drop 2 mountpoint else mountpoint)
       in inner \<noteq> [] \<and> hd inner \<noteq> CHR ''.'' \<and> hd inner \<noteq> CHR ''/''))"

definition dev_routes :: "string \<Rightarrow> nat \<Rightarrow> route list" where
  "dev_routes mountpoint devPort =
     [getDevRoute (srcBase_of mountpoint) devPort
        \<lparr>src = Some ''/(.*)'', dest = Some ''/$1'', headers = None, continue = None,
         handle = None\<rparr>]"

definition static_routes :: "route list" where
  "static_routes =
     [\<lparr>src = Some ''/static/(.*)'', dest = None,
       headers = Some [(''cache-control'', ''s-maxage=31536000, immutable'')],
       continue = Some True, handle = None\<rparr>,
      \<lparr>src = Some ''/service-worker.js'', dest = None,
       headers = Some [(''cache-control'', ''s-maxage=0'')],
       continue = Some True, handle = None\<rparr>,
      \<lparr>src = Some ''/sockjs-node/(.*)'', dest = Some ''/sockjs-node/$1'',
       headers = None, continue = None, handle = None\<rparr>,
      \<lparr>src = None, dest = None, headers = None, continue = None, handle = Some ''filesystem''\<rparr>,
      \<lparr>src = Some ''/(.*)'', dest = Some ''/render.js'',
       headers = None, continue = None, handle = None\<rparr>]"

subsection \<open>The dev server\<close>

text \<open>
  \<^verbatim>\<open>spawn\<close> is taken to start the process; an \<^verbatim>\<open>exit\<close> event reaches
  the module as \<open>child_exit\<close>.
\<close>

definition failed_to_detect_message :: "nat \<Rightarrow> string" where
  "failed_to_detect_message devPort =
     ''Failed to detect a server running on port '' @ show_nat devPort @
     ''.\<newline>Details: https://err.sh/zeit/now/now-static-build-failed-to-detect-a-server''"

text \<open>
  Lines 177 to 201, which run once \<^verbatim>\<open>getPort\<close> has given a port: no
  \<^verbatim>\<open>await\<close> stands between the registry entry, the spawn, the listener and the
  child set.
\<close>

definition dev_server_spawn ::
  "build_env \<Rightarrow> string \<Rightarrow> path \<Rightarrow> nat \<Rightarrow> builder_state \<Rightarrow> (error + nat) \<times> builder_state" where
  "dev_server_spawn env entry entrypointDir devPort st =
     (let st1 = st\<lparr>nowDevScriptPorts := (nowDevScriptPorts st)(entry \<mapsto> devPort),
                    effects := effects st @ [SetPort entry devPort]\<rparr>;
          child = length (processes st1);
          st2 = st1\<lparr>processes := processes st1 @
                       [\<lparr>command = [''yarn'', ''start''], cwd = entrypointDir,
                         env_PORT = show_nat devPort, exit_listeners = [],
                         running = True\<rparr>],
                     effects := effects st1 @ [Spawn child]\<rparr>;
          st3 = st2\<lparr>processes := (processes st2)
                       [child := (processes st2 ! child)
                          \<lparr>exit_listeners :=
                             exit_listeners (processes st2 ! child) @ [entry]\<rparr>],
                     effects := effects st2 @ [OnExit child entry]\<rparr>;
          st4 = st3\<lparr>nowDevChildProcesses :=
                       set_add child (nowDevChildProcesses st3),
                     effects := effects st3 @ [AddChild child]\<rparr>
      in case fst (checkForPort (timing env) devPort DEV_SERVER_PORT_BIND_TIMEOUT
                     (clock env)) of
           Inl err \<Rightarrow> (Inl (Error (failed_to_detect_message devPort)), st4)
         | Inr u \<Rightarrow> (Inr devPort, st4))"

text \<open>
  Lines 169 to 201 for a build that runs alone: the registry is read at line 169, and
  \<^verbatim>\<open>await getPort()\<close> at line 176 comes before it is written at line 177.
\<close>

definition dev_server ::
  "build_env \<Rightarrow> string \<Rightarrow> path \<Rightarrow> builder_state \<Rightarrow> (error + nat) \<times> builder_state" where
  "dev_server env entry entrypointDir st =
     (case nowDevScriptPorts st entry of
        Some devPort \<Rightarrow> (Inr devPort, st)
      | None \<Rightarrow>
          (case getPort env of
             Inl e \<Rightarrow> (Inl e, st)
           | Inr devPort \<Rightarrow> dev_server_spawn env entry entrypointDir devPort st))"


subsection \<open>The steps of build\<close>

text \<open>The paths build derives from its options.\<close>

definition mountpoint_of :: "build_env \<Rightarrow> build_options \<Rightarrow> path" where
  "mountpoint_of env opts = dirname (np (tracer env)) (entrypoint opts)"

definition entrypointDir_of :: "build_env \<Rightarrow> build_options \<Rightarrow> path" where
  "entrypointDir_of env opts = join (np (tracer env)) [workPath opts, mountpoint_of env opts]"

definition buildPath_of :: "build_env \<Rightarrow> build_options \<Rightarrow> path" where
  "buildPath_of env opts =
     join (np (tracer env)) [workPath opts, dirname (np (tracer env)) (entrypoint opts), ''build'']"

definition distPath_of :: "build_env \<Rightarrow> build_options \<Rightarrow> path" where
  "distPath_of env opts = join (np (tracer env)) [buildPath_of env opts, ''web'']"

definition renderPath_of :: "build_env \<Rightarrow> build_options \<Rightarrow> path" where
  "renderPath_of env opts = join (np (tracer env)) [buildPath_of env opts, ''node'', ''index.js'']"

definition pkgPath_of :: "build_env \<Rightarrow> build_options \<Rightarrow> path" where
  "pkgPath_of env opts = join (np (tracer env)) [workPath opts, entrypoint opts]"

text \<open>Lines 145 to 166: download, read the manifest, find the Node version, install.\<close>

definition build_setup ::
  "build_env \<Rightarrow> build_options \<Rightarrow> error + (package_json option \<times> node_version)" where
  "build_setup env opts =
     (case download env (files opts) (workPath opts) (meta opts) of
        Some e \<Rightarrow> Inl e
      | None \<Rightarrow>
          (case readPackageJson env (pkgPath_of env opts) of
             Inl e \<Rightarrow> Inl e
           | Inr pkg \<Rightarrow>
               (case getNodeVersion env (entrypointDir_of env opts) (config opts) of
                  Inl e \<Rightarrow> Inl e
                | Inr nodeVersion \<Rightarrow>
                    (case runNpmInstall env (entrypointDir_of env opts) [''--prefer-offline''] of
                       Some e \<Rightarrow> Inl e
                     | None \<Rightarrow> Inr (pkg, nodeVersion)))))"

text \<open>
  \<^verbatim>\<open>meta.isDev && pkg.scripts && pkg.scripts.start\<close>: reading \<^verbatim>\<open>scripts\<close> of
  a null manifest throws, and the manifest is read only in dev mode.
\<close>

definition has_start_script :: "build_options \<Rightarrow> package_json option \<Rightarrow> error + bool" where
  "has_start_script opts pkg =
     (if \<not> isDev (meta opts) then Inr False
      else case pkg of
        None \<Rightarrow> Inl (TypeError ''Cannot read property 'scripts' of null'')
      | Some p \<Rightarrow> Inr (truthy_script (scripts_of pkg) ''start''))"

definition missing_script_message :: "string \<Rightarrow> string \<Rightarrow> string" where
  \<open>missing_script_message buildScript entry =
     ''Missing required "'' @ buildScript @ ''" script in "'' @ entry @ ''"''\<close>

text \<open>Lines 219 to 269: the build script, the output directory, the static files.\<close>

definition build_static ::
  "build_env \<Rightarrow> build_options \<Rightarrow> package_json option \<Rightarrow> error + (route list \<times> Files)" where
  "build_static env opts pkg =
     (let buildScript = getCommand pkg ''build'' (config opts) in
      case runPackageJsonScript env (entrypointDir_of env opts) buildScript of
        Inl e \<Rightarrow> Inl e
      | Inr found \<Rightarrow>
          if \<not> found then Inl (Error (missing_script_message buildScript (entrypoint opts)))
          else
            (case validateDistDir (np (tracer env)) (fs (tracer env)) (distPath_of env opts)
                    (isDev (meta opts)) (config opts) of
               Inl e \<Rightarrow> Inl e
             | Inr u \<Rightarrow>
                 (case glob_mounted env ''**'' (distPath_of env opts) (mountpoint_of env opts) of
                    Inl e \<Rightarrow> Inl e
                  | Inr globbed \<Rightarrow> Inr (static_routes, globbed))))"

text \<open>
  \<^verbatim>\<open>{...a, ...b}\<close>: the properties of \<open>a\<close>, then those of \<open>b\<close>, each set
  in turn.
\<close>

definition spread :: "('k \<times> 'v) list \<Rightarrow> ('k \<times> 'v) list \<Rightarrow> ('k \<times> 'v) list" where
  "spread a b = fold (\<lambda>kv acc. AList.update (fst kv) (snd kv) acc) b a"

definition launcherFiles :: "build_env \<Rightarrow> Files" where
  "launcherFiles env =
     [(LAUNCHER_FILENAME @ ''.js'',
       FileBlob (Str (makeNowLauncher env
         \<lparr>entrypointPath = ''./build/node/index.js'',
          bridgePath = ''./'' @ BRIDGE_FILENAME,
          helpersPath = ''./'' @ HELPERS_FILENAME,
          sourcemapSupportPath = ''./'' @ SOURCEMAP_SUPPORT_FILENAME,
          shouldAddHelpers = True\<rparr>)) None),
      (BRIDGE_FILENAME @ ''.js'',
       FileFsRef (join (np (tracer env)) [module_dirname env, ''bridge.js'']) None),
      (HELPERS_FILENAME @ ''.js'',
       FileFsRef (join (np (tracer env)) [module_dirname env, ''helpers.js'']) None)]"

text \<open>Lines 272 to 314: trace, package, and the result.\<close>

definition build_lambda ::
  "build_env \<Rightarrow> build_options \<Rightarrow> node_version \<Rightarrow> route list \<Rightarrow> Files \<Rightarrow> error + build_result" where
  "build_lambda env opts nodeVersion rs globbed =
     (let rt = (if isDev (meta opts) then ''nodejs'' else runtime nodeVersion) in
      case compile (tracer env) (workPath opts) (renderPath_of env opts) (config opts) of
        Inl e \<Rightarrow> Inl e
      | Inr (preparedFiles, watched) \<Rightarrow>
          (case createLambda env (spread preparedFiles (launcherFiles env))
                  (LAUNCHER_FILENAME @ ''.launcher'') rt of
             Inl e \<Rightarrow> Inl e
           | Inr l \<Rightarrow>
               Inr \<lparr>routes = rs,
                    watch = watched @
                      [join (np (tracer env)) [strip_dot (mountpoint_of env opts), ''**/*'']],
                    output = AList.update ''render.js'' (LambdaOut l)
                      (map (\<lambda>kv. (fst kv, FileOut (snd kv))) globbed),
                    distPath = distPath_of env opts\<rparr>))"

definition build ::
  "build_env \<Rightarrow> build_options \<Rightarrow> builder_state \<Rightarrow> (error + build_result) \<times> builder_state" where
  "build env opts st =
     (case build_setup env opts of
        Inl e \<Rightarrow> (Inl e, st)
      | Inr (pkg, nodeVersion) \<Rightarrow>
          (case has_start_script opts pkg of
             Inl e \<Rightarrow> (Inl e, st)
           | Inr True \<Rightarrow>
               (case dev_server env (entrypoint opts) (entrypointDir_of env opts) st of
                  (Inl e, st') \<Rightarrow> (Inl e, st')
                | (Inr devPort, st') \<Rightarrow>
                    (build_lambda env opts nodeVersion
                       (dev_routes (mountpoint_of env opts) devPort) [], st'))
           | Inr False \<Rightarrow>
               (case build_static env opts pkg of
                  Inl e \<Rightarrow> (Inl e, st)
                | Inr (rs, globbed) \<Rightarrow> (build_lambda env opts nodeVersion rs globbed, st))))"


subsection \<open>The dev server is reused\<close>


text \<open>
  The states the module is in when builds run in turn, each one from its call to its
  return before the next is called: the initial state, and those that a whole build or
  the exit of a child leads to, whatever the environment and the options of the build.
\<close>

inductive reachable_in_turn :: "builder_state \<Rightarrow> bool" where
  start: "reachable_in_turn initial_state"
| after_build: "reachable_in_turn st \<Longrightarrow> reachable_in_turn (snd (build env opts st))"
| after_exit: "reachable_in_turn st \<Longrightarrow> reachable_in_turn (child_exit pid st)"

text \<open>
  \<^verbatim>\<open>build\<close> is an \<^verbatim>\<open>async\<close> function, and nothing keeps a second call from
  starting while a first one waits. A build that found no port for its entrypoint at
  line 169 waits at line 176 for \<^verbatim>\<open>getPort\<close>; meanwhile other builds start, wait
  and resume, and children exit. \<open>overlapping waiting st\<close>: the module is in state
  \<open>st\<close>, with the builds of \<open>waiting\<close> (environment, entrypoint, directory) stopped
  at line 176. A build that finds a port at line 169, or that does not reach the dev
  branch, leaves the state as it is and needs no rule.
\<close>

inductive overlapping ::
  "(build_env \<times> string \<times> path) list \<Rightarrow> builder_state \<Rightarrow> bool" where
  idle: "overlapping [] initial_state"
| awaits_port:
    "overlapping waiting st \<Longrightarrow> nowDevScriptPorts st entry = None \<Longrightarrow>
     overlapping ((env, entry, dir) # waiting) st"
| resumes:
    "overlapping waiting st \<Longrightarrow> (env, entry, dir) \<in> set waiting \<Longrightarrow>
     getPort env = Inr devPort \<Longrightarrow>
     overlapping (remove1 (env, entry, dir) waiting)
       (snd (dev_server_spawn env entry dir devPort st))"
| no_port:
    "overlapping waiting st \<Longrightarrow> (env, entry, dir) \<in> set waiting \<Longrightarrow>
     getPort env = Inl e \<Longrightarrow>
     overlapping (remove1 (env, entry, dir) waiting) st"
| child_exits: "overlapping waiting st \<Longrightarrow> overlapping waiting (child_exit pid st)"





definition spawned :: "string \<Rightarrow> path \<Rightarrow> nat \<Rightarrow> builder_state \<Rightarrow> builder_state" where
  "spawned entry dir devPort st =
     st\<lparr>nowDevScriptPorts := (nowDevScriptPorts st)(entry \<mapsto> devPort),
        processes := processes st @
          [\<lparr>command = [''yarn'', ''start''], cwd = dir, env_PORT = show_nat devPort,
            exit_listeners = [entry], running = True\<rparr>],
        nowDevChildProcesses := set_add (length (processes st)) (nowDevChildProcesses st),
        effects := effects st @
          [SetPort entry devPort, Spawn (length (processes st)),
           OnExit (length (processes st)) entry, AddChild (length (processes st))]\<rparr>"


lemma dev_server_fresh:
  assumes "nowDevScriptPorts st entry = None" "getPort env = Inr devPort"
  shows "snd (dev_server env entry dir st) = spawned entry dir devPort st"
    and "fst (dev_server env entry dir st) =
      (case fst (checkForPort (timing env) devPort DEV_SERVER_PORT_BIND_TIMEOUT (clock env)) of
         Inl err \<Rightarrow> Inl (Error (failed_to_detect_message devPort))
       | Inr u \<Rightarrow> Inr devPort)"
  using assms
  by (simp_all add: dev_server_def dev_server_spawn_def spawned_def Let_def split: sum.splits)


lemma dev_server_steps:
  "snd (dev_server env entry dir st) = st \<or>
   (nowDevScriptPorts st entry = None \<and>
    (\<exists>devPort. getPort env = Inr devPort \<and>
       snd (dev_server env entry dir st) = snd (dev_server_spawn env entry dir devPort st)))"
  by (simp add: dev_server_def split: option.splits sum.splits)

lemma build_state:
  "snd (build env opts st) = st \<or>
   snd (build env opts st) = snd (dev_server env (entrypoint opts) (entrypointDir_of env opts) st)"
  by (auto simp: build_def split: sum.splits prod.splits bool.splits)







text \<open>Builds in turn are overlapping builds of which none waits while another runs.\<close>

lemma reachable_in_turn_overlapping: "reachable_in_turn st \<Longrightarrow> overlapping [] st"
proof (induction rule: reachable_in_turn.induct)
  case start
  show ?case by (rule overlapping.idle)
next
  case (after_build st env opts)
  from build_state [of env opts st]
    dev_server_steps [of env "entrypoint opts" "entrypointDir_of env opts" st]
  consider "snd (build env opts st) = st"
    | devPort where "nowDevScriptPorts st (entrypoint opts) = None"
        "getPort env = Inr devPort"
        "snd (build env opts st) =
           snd (dev_server_spawn env (entrypoint opts) (entrypointDir_of env opts) devPort st)"
    by metis
  then show ?case
  proof cases
    case 1
    with after_build.IH show ?thesis by simp
  next
    case 2
    from overlapping.awaits_port [OF after_build.IH 2(1)]
    have "overlapping [(env, entrypoint opts, entrypointDir_of env opts)] st" .
    from overlapping.resumes [OF this _ 2(2)] 2(3) show ?thesis by simp
  qed
next
  case (after_exit st pid)
  from after_exit.IH show ?case by (rule overlapping.child_exits)
qed

text \<open>
  On an ordinary mount point the regular expression of line 203 gives the mount-relative
  prefix. On a directory whose name starts with a dot it takes the dot of the name for
  the dot of \<^verbatim>\<open>./\<close>.
\<close>

lemma srcBase_of_ordinary:
  "ordinary_mountpoint mountpoint \<Longrightarrow> srcBase_of mountpoint = mount_prefix mountpoint"
  by (cases mountpoint rule: strip_dot.cases)
    (auto simp: ordinary_mountpoint_def srcBase_of_def mount_prefix_def Let_def
      split: if_splits)

lemma srcBase_of_dot_directory:
  "srcBase_of ''.hidden'' = ''/hidden''" "mount_prefix ''.hidden'' = ''/.hidden''"
  "\<not> ordinary_mountpoint ''.hidden''"
  by (simp_all add: srcBase_of_def mount_prefix_def ordinary_mountpoint_def)




subsection \<open>A project for the examples\<close>

definition site_disk :: node_fs where
  "site_disk =
     \<lparr>existsSync = (\<lambda>p. True),
      isDirectory = (\<lambda>p. Inr True),
      readdirSync = (\<lambda>p. Inr [''index.html'']),
      readFileSync = (\<lambda>p.
        if p = ''/w/build/node/index.js'' then Inr ''module.exports = 1''
        else Inl (ErrnoException ''ENOENT'')),
      lstatSync = (\<lambda>p.
        if p = ''/w/build/node/index.js'' then Inr 33188
        else Inl (ErrnoException ''ENOENT''))\<rparr>"

definition site_env :: "package_json option \<Rightarrow> bool \<Rightarrow> build_env" where
  "site_env pkg found =
     \<lparr>tracer = demo_env\<lparr>fs := site_disk\<rparr>,
      download = (\<lambda>fs dir m. None),
      readPackageJson = (\<lambda>p. Inr pkg),
      getNodeVersion = (\<lambda>dir cfg. Inr \<lparr>runtime = ''nodejs10.x''\<rparr>),
      runNpmInstall = (\<lambda>dir args. None),
      getPort = Inr 3000,
      timing = open_from 0,
      clock = 0,
      runPackageJsonScript = (\<lambda>dir script. Inr found),
      glob_mounted = (\<lambda>pattern dir mount.
        Inr [(''index.html'', FileFsRef ''/w/build/web/index.html'' (Some 33188))]),
      makeNowLauncher = (\<lambda>options. ''launcher''),
      module_dirname = ''/builder/dist'',
      createLambda = (\<lambda>fs h rt. Inr (Lambda ''zip'' h rt))\<rparr>"

definition site_options :: "bool \<Rightarrow> build_options" where
  "site_options dev =
     \<lparr>files = [], entrypoint = ''package.json'', workPath = ''/w'', config = custom_config,
      meta = \<lparr>isDev = dev\<rparr>\<rparr>"

lemma site_paths:
  "mountpoint_of (site_env pkg found) (site_options dev) = ''.''"
  "entrypointDir_of (site_env pkg found) (site_options dev) = ''/w''"
  "distPath_of (site_env pkg found) (site_options dev) = ''/w/build/web''"
  "renderPath_of (site_env pkg found) (site_options dev) = ''/w/build/node/index.js''"
  "pkgPath_of (site_env pkg found) (site_options dev) = ''/w/package.json''"
  by (simp_all add: mountpoint_of_def entrypointDir_of_def distPath_of_def renderPath_of_def
      pkgPath_of_def buildPath_of_def site_env_def site_options_def demo_env_def posix_path_def)

lemma site_setup:
  "build_setup (site_env pkg found) (site_options dev) = Inr (pkg, \<lparr>runtime = ''nodejs10.x''\<rparr>)"
  by (simp add: build_setup_def site_env_def)

lemma site_compile:
  "compile (tracer (site_env pkg found)) ''/w'' ''/w/build/node/index.js'' custom_config =
     Inr ([(''build/node/index.js'', FileBlob (Buf ''module.exports = 1'') (Some 33188))],
          [''build/node/index.js''])"
  by (simp add: compile_def compile_includes_def include_patterns_def custom_config_def
      site_env_def demo_env_def site_disk_def posix_path_def readFile_def readFile_try_def
      readFile_catch_def prepare_entry_def Let_def)

lemma site_lambda:
  "build_lambda (site_env pkg found) (site_options dev) \<lparr>runtime = ''nodejs10.x''\<rparr> rs globbed =
     Inr \<lparr>routes = rs, watch = [''build/node/index.js'', ''**/*''],
          output = AList.update ''render.js''
            (LambdaOut (Lambda ''zip'' ''___now_launcher.launcher''
               (if dev then ''nodejs'' else ''nodejs10.x'')))
            (map (\<lambda>kv. (fst kv, FileOut (snd kv))) globbed),
          distPath = ''/w/build/web''\<rparr>"
proof -
  have w: "workPath (site_options dev) = ''/w''" "config (site_options dev) = custom_config"
    "isDev (meta (site_options dev)) = dev"
    by (simp_all add: site_options_def)
  show ?thesis
    unfolding build_lambda_def site_paths w site_compile
    by (simp add: site_env_def LAUNCHER_FILENAME_def demo_env_def posix_path_def)
qed


subsection \<open>What a build returns\<close>

lemma dev_server_port:
  "dev_server env entry dir st = (Inr devPort, st') \<Longrightarrow> nowDevScriptPorts st' entry = Some devPort"
  by (auto simp: dev_server_def dev_server_spawn_def Let_def split: option.splits sum.splits)

lemma setup_manifest:
  "build_setup env opts = Inr (pkg, nodeVersion) \<Longrightarrow>
   readPackageJson env (pkgPath_of env opts) = Inr pkg \<and>
   getNodeVersion env (entrypointDir_of env opts) (config opts) = Inr nodeVersion"
  by (auto simp: build_setup_def split: option.splits sum.splits)

lemma build_returns:
  assumes "fst (build env opts st) = Inr r"
  obtains pkg nodeVersion b where "build_setup env opts = Inr (pkg, nodeVersion)"
    "has_start_script opts pkg = Inr b"
  using assms by (auto simp: build_def split: sum.splits prod.splits)

lemma build_dev:
  "build_setup env opts = Inr (pkg, nodeVersion) \<Longrightarrow> has_start_script opts pkg = Inr True \<Longrightarrow>
   build env opts st =
     (case dev_server env (entrypoint opts) (entrypointDir_of env opts) st of
        (Inl e, st') \<Rightarrow> (Inl e, st')
      | (Inr devPort, st') \<Rightarrow>
          (build_lambda env opts nodeVersion (dev_routes (mountpoint_of env opts) devPort) [], st'))"
  by (simp add: build_def)

lemma build_not_dev:
  "build_setup env opts = Inr (pkg, nodeVersion) \<Longrightarrow> has_start_script opts pkg = Inr False \<Longrightarrow>
   build env opts st =
     (case build_static env opts pkg of
        Inl e \<Rightarrow> (Inl e, st)
      | Inr (rs, globbed) \<Rightarrow> (build_lambda env opts nodeVersion rs globbed, st))"
  by (simp add: build_def)

lemma has_start_script_iff:
  "has_start_script opts pkg = Inr b \<Longrightarrow>
   b = (isDev (meta opts) \<and> truthy_script (scripts_of pkg) ''start'')"
  by (auto simp: has_start_script_def split: if_splits option.splits)

lemma build_static_routes:
  "build_static env opts pkg = Inr (rs, globbed) \<Longrightarrow> rs = static_routes"
  by (auto simp: build_static_def Let_def split: sum.splits if_splits)

lemma build_lambda_result:
  assumes "build_lambda env opts nodeVersion rs globbed = Inr r"
  shows "routes r = rs"
    and "\<exists>preparedFiles watched l.
      compile (tracer env) (workPath opts) (renderPath_of env opts) (config opts) =
        Inr (preparedFiles, watched) \<and>
      createLambda env (spread preparedFiles (launcherFiles env)) ''___now_launcher.launcher''
        (if isDev (meta opts) then ''nodejs'' else runtime nodeVersion) = Inr l \<and>
      map_of (output r) ''render.js'' = Some (LambdaOut l)"
  using assms
  by (auto simp: build_lambda_def Let_def LAUNCHER_FILENAME_def update_conv'
      split: sum.splits prod.splits)

lemma map_of_spread: "map_of (spread xs ys) = map_of xs ++ map_of (rev ys)"
  unfolding spread_def
proof (induction ys arbitrary: xs)
  case Nil
  show ?case by simp
next
  case (Cons kv ys)
  have "map_of (fold (\<lambda>kv acc. AList.update (fst kv) (snd kv) acc) ys
          (AList.update (fst kv) (snd kv) xs)) =
        map_of (AList.update (fst kv) (snd kv) xs) ++ map_of (rev ys)"
    by (rule Cons)
  also have "\<dots> = (map_of xs)(fst kv \<mapsto> snd kv) ++ map_of (rev ys)"
    by (simp only: update_conv')
  also have "\<dots> = map_of xs ++ map_of (rev (kv # ys))"
    by (rule ext) (simp add: map_add_def split: option.splits)
  finally show ?case by simp
qed

lemma launcherFiles_keys:
  "map fst (launcherFiles env) = [''___now_launcher.js'', ''___now_bridge.js'', ''___now_helpers.js'']"
  by (simp add: launcherFiles_def LAUNCHER_FILENAME_def BRIDGE_FILENAME_def HELPERS_FILENAME_def)

lemma map_of_rev_launcherFiles: "map_of (rev (launcherFiles env)) = map_of (launcherFiles env)"
  by (rule ext)
    (simp add: launcherFiles_def LAUNCHER_FILENAME_def BRIDGE_FILENAME_def HELPERS_FILENAME_def)

lemma spread_launcherFiles:
  "map_of (spread preparedFiles (launcherFiles env)) =
     map_of preparedFiles ++ map_of (launcherFiles env)"
  by (simp add: map_of_spread map_of_rev_launcherFiles)


subsection \<open>Builds of the example project\<close>

definition manifest :: "(string \<rightharpoonup> string) \<Rightarrow> package_json option" where
  "manifest s = Some \<lparr>scripts = Some s\<rparr>"

lemma site_build_static:
  assumes "\<not> (dev \<and> truthy_script s ''start'')"
  shows "build (site_env (manifest s) True) (site_options dev) st =
     (Inr \<lparr>routes = static_routes, watch = [''build/node/index.js'', ''**/*''],
           output =
             [(''index.html'', FileOut (FileFsRef ''/w/build/web/index.html'' (Some 33188))),
              (''render.js'', LambdaOut (Lambda ''zip'' ''___now_launcher.launcher''
                 (if dev then ''nodejs'' else ''nodejs10.x'')))],
           distPath = ''/w/build/web''\<rparr>, st)"
proof -
  have start: "has_start_script (site_options dev) (manifest s) = Inr False"
    using assms by (simp add: has_start_script_def manifest_def scripts_of_def site_options_def)
  have valid: "validateDistDir (np (tracer (site_env (manifest s) True)))
      (fs (tracer (site_env (manifest s) True))) ''/w/build/web''
      (isDev (meta (site_options dev))) (config (site_options dev)) = Inr ()"
    by (simp add: validateDistDir_def site_env_def site_disk_def Let_def)
  have static: "build_static (site_env (manifest s) True) (site_options dev) (manifest s) =
      Inr (static_routes, [(''index.html'', FileFsRef ''/w/build/web/index.html'' (Some 33188))])"
    unfolding build_static_def site_paths valid
    by (simp add: site_env_def)
  show ?thesis
    unfolding build_not_dev [OF site_setup start] static
    by (simp add: site_lambda)
qed

lemma site_build_missing_script:
  assumes "\<not> (dev \<and> truthy_script s ''start'')"
  shows "build (site_env (manifest s) False) (site_options dev) st =
     (Inl (Error (missing_script_message
        (getCommand (manifest s) ''build'' custom_config) ''package.json'')), st)"
proof -
  have start: "has_start_script (site_options dev) (manifest s) = Inr False"
    using assms by (simp add: has_start_script_def manifest_def scripts_of_def site_options_def)
  have static: "build_static (site_env (manifest s) False) (site_options dev) (manifest s) =
      Inl (Error (missing_script_message
        (getCommand (manifest s) ''build'' custom_config) ''package.json''))"
    unfolding build_static_def site_paths
    by (simp add: site_env_def site_options_def)
  show ?thesis
    unfolding build_not_dev [OF site_setup start] static by simp
qed

lemma site_dev_server:
  "dev_server (site_env pkg found) ''package.json'' ''/w'' initial_state =
     (Inr 3000, spawned ''package.json'' ''/w'' 3000 initial_state)"
proof -
  have none: "nowDevScriptPorts initial_state ''package.json'' = None"
    by (simp add: initial_state_def)
  have port: "getPort (site_env pkg found) = Inr 3000"
    by (simp add: site_env_def)
  have "isPortReachable (open_from 0) 3000 0" by (simp add: open_from_def)
  then have up: "fst (checkForPort (timing (site_env pkg found)) 3000 DEV_SERVER_PORT_BIND_TIMEOUT
      (clock (site_env pkg found))) = Inr ()"
    by (simp add: checkForPort_def site_env_def loop_reachable)
  from dev_server_fresh [OF none port, of "''/w''"] up show ?thesis
    by (simp add: prod_eq_iff)
qed

lemma site_build_dev:
  assumes "truthy_script s ''start''"
  shows "build (site_env (manifest s) found) (site_options True) initial_state =
     (Inr \<lparr>routes = dev_routes ''.'' 3000, watch = [''build/node/index.js'', ''**/*''],
           output = [(''render.js'', LambdaOut (Lambda ''zip'' ''___now_launcher.launcher'' ''nodejs''))],
           distPath = ''/w/build/web''\<rparr>,
      spawned ''package.json'' ''/w'' 3000 initial_state)"
proof -
  have start: "has_start_script (site_options True) (manifest s) = Inr True"
    using assms by (simp add: has_start_script_def manifest_def scripts_of_def site_options_def)
  have entry: "entrypoint (site_options True) = ''package.json''"
    by (simp add: site_options_def)
  show ?thesis
    unfolding build_dev [OF site_setup start] site_paths entry site_dev_server
    by (simp add: site_lambda)
qed

text \<open>The same project below the work path, in the directory \<^verbatim>\<open>docs\<close>.\<close>

definition docs_disk :: node_fs where
  "docs_disk =
     \<lparr>existsSync = (\<lambda>p. True),
      isDirectory = (\<lambda>p. Inr True),
      readdirSync = (\<lambda>p. Inr [''index.html'']),
      readFileSync = (\<lambda>p.
        if p = ''/w/docs/build/node/index.js'' then Inr ''module.exports = 1''
        else Inl (ErrnoException ''ENOENT'')),
      lstatSync = (\<lambda>p.
        if p = ''/w/docs/build/node/index.js'' then Inr 33188
        else Inl (ErrnoException ''ENOENT''))\<rparr>"

definition docs_env :: "package_json option \<Rightarrow> bool \<Rightarrow> build_env" where
  "docs_env pkg found =
     (site_env pkg found)
       \<lparr>tracer := demo_env\<lparr>fs := docs_disk\<rparr>,
        glob_mounted := (\<lambda>pattern dir mount.
          Inr [(''docs/index.html'', FileFsRef ''/w/docs/build/web/index.html'' (Some 33188))])\<rparr>"

definition docs_options :: "bool \<Rightarrow> build_options" where
  "docs_options dev =
     \<lparr>files = [], entrypoint = ''docs/package.json'', workPath = ''/w'', config = custom_config,
      meta = \<lparr>isDev = dev\<rparr>\<rparr>"

lemma docs_paths:
  "mountpoint_of (docs_env pkg found) (docs_options dev) = ''docs''"
  "entrypointDir_of (docs_env pkg found) (docs_options dev) = ''/w/docs''"
  "distPath_of (docs_env pkg found) (docs_options dev) = ''/w/docs/build/web''"
  "renderPath_of (docs_env pkg found) (docs_options dev) = ''/w/docs/build/node/index.js''"
  "pkgPath_of (docs_env pkg found) (docs_options dev) = ''/w/docs/package.json''"
  by (simp_all add: mountpoint_of_def entrypointDir_of_def distPath_of_def renderPath_of_def
      pkgPath_of_def buildPath_of_def docs_env_def site_env_def docs_options_def demo_env_def
      posix_path_def)

lemma docs_setup:
  "build_setup (docs_env pkg found) (docs_options dev) = Inr (pkg, \<lparr>runtime = ''nodejs10.x''\<rparr>)"
  by (simp add: build_setup_def docs_env_def site_env_def)

lemma docs_compile:
  "compile (tracer (docs_env pkg found)) ''/w'' ''/w/docs/build/node/index.js'' custom_config =
     Inr ([(''docs/build/node/index.js'', FileBlob (Buf ''module.exports = 1'') (Some 33188))],
          [''docs/build/node/index.js''])"
  by (simp add: compile_def compile_includes_def include_patterns_def custom_config_def
      docs_env_def site_env_def demo_env_def docs_disk_def posix_path_def readFile_def
      readFile_try_def readFile_catch_def prepare_entry_def Let_def)

lemma docs_lambda:
  "build_lambda (docs_env pkg found) (docs_options dev) \<lparr>runtime = ''nodejs10.x''\<rparr> rs globbed =
     Inr \<lparr>routes = rs, watch = [''docs/build/node/index.js'', ''docs/**/*''],
          output = AList.update ''render.js''
            (LambdaOut (Lambda ''zip'' ''___now_launcher.launcher''
               (if dev then ''nodejs'' else ''nodejs10.x'')))
            (map (\<lambda>kv. (fst kv, FileOut (snd kv))) globbed),
          distPath = ''/w/docs/build/web''\<rparr>"
proof -
  have w: "workPath (docs_options dev) = ''/w''" "config (docs_options dev) = custom_config"
    "isDev (meta (docs_options dev)) = dev"
    by (simp_all add: docs_options_def)
  show ?thesis
    unfolding build_lambda_def docs_paths w docs_compile
    by (simp add: docs_env_def site_env_def LAUNCHER_FILENAME_def demo_env_def posix_path_def)
qed

lemma docs_dev_server:
  "dev_server (docs_env pkg found) ''docs/package.json'' ''/w/docs'' initial_state =
     (Inr 3000, spawned ''docs/package.json'' ''/w/docs'' 3000 initial_state)"
proof -
  have none: "nowDevScriptPorts initial_state ''docs/package.json'' = None"
    by (simp add: initial_state_def)
  have port: "getPort (docs_env pkg found) = Inr 3000"
    by (simp add: docs_env_def site_env_def)
  have "isPortReachable (open_from 0) 3000 0" by (simp add: open_from_def)
  then have up: "fst (checkForPort (timing (docs_env pkg found)) 3000 DEV_SERVER_PORT_BIND_TIMEOUT
      (clock (docs_env pkg found))) = Inr ()"
    by (simp add: checkForPort_def docs_env_def site_env_def loop_reachable)
  from dev_server_fresh [OF none port, of "''/w/docs''"] up show ?thesis
    by (simp add: prod_eq_iff)
qed

lemma docs_build_dev:
  assumes "truthy_script s ''start''"
  shows "build (docs_env (manifest s) found) (docs_options True) initial_state =
     (Inr \<lparr>routes = dev_routes ''docs'' 3000,
           watch = [''docs/build/node/index.js'', ''docs/**/*''],
           output = [(''render.js'', LambdaOut (Lambda ''zip'' ''___now_launcher.launcher'' ''nodejs''))],
           distPath = ''/w/docs/build/web''\<rparr>,
      spawned ''docs/package.json'' ''/w/docs'' 3000 initial_state)"
proof -
  have start: "has_start_script (docs_options True) (manifest s) = Inr True"
    using assms by (simp add: has_start_script_def manifest_def scripts_of_def docs_options_def)
  have entry: "entrypoint (docs_options True) = ''docs/package.json''"
    by (simp add: docs_options_def)
  show ?thesis
    unfolding build_dev [OF docs_setup start] docs_paths entry docs_dev_server
    by (simp add: docs_lambda)
qed

text \<open>What a build returns when it does not take the dev-server branch.\<close>

lemma build_without_dev_server:
  assumes ok: "fst (build env opts st) = Inr r"
    and pkg: "readPackageJson env (pkgPath_of env opts) = Inr pkg"
    and mode: "\<not> (isDev (meta opts) \<and> truthy_script (scripts_of pkg) ''start'')"
  shows "routes r = static_routes"
proof -
  from ok obtain pkg2 nodeVersion b where
    pre: "build_setup env opts = Inr (pkg2, nodeVersion)"
    and start: "has_start_script opts pkg2 = Inr b"
    by (rule build_returns)
  from setup_manifest [OF pre] pkg have same: "pkg2 = pkg" by simp
  from has_start_script_iff [OF start] mode same have "b = False" by simp
  with start have start2: "has_start_script opts pkg2 = Inr False" by simp
  from ok obtain rs globbed where
    static: "build_static env opts pkg2 = Inr (rs, globbed)"
    and lam: "build_lambda env opts nodeVersion rs globbed = Inr r"
    unfolding build_not_dev [OF pre start2] by (auto split: sum.splits prod.splits)
  from build_lambda_result(1) [OF lam] build_static_routes [OF static]
  show ?thesis by simp
qed


subsection \<open>Properties of build\<close>

text \<open>
  C9: a build that returns and is not a dev-server build (the invocation is not in dev
  mode, or the manifest has no start script) returns exactly five routes, in this order:
  \<^verbatim>\<open>/static/(.*)\<close> with the immutable one-year cache-control header and
  \<^verbatim>\<open>continue\<close> set; \<^verbatim>\<open>/service-worker.js\<close> with the no-caching header and
  \<^verbatim>\<open>continue\<close> set; \<^verbatim>\<open>/sockjs-node/(.*)\<close> with destination
  \<^verbatim>\<open>/sockjs-node/$1\<close>; the \<^verbatim>\<open>filesystem\<close> handle; and \<^verbatim>\<open>/(.*)\<close> with
  destination \<^verbatim>\<open>/render.js\<close>.
\<close>

theorem build_static_routes_fixed:
  "fst (build env opts st) = Inr r \<Longrightarrow>
   readPackageJson env (pkgPath_of env opts) = Inr pkg \<Longrightarrow>
   \<not> (isDev (meta opts) \<and> truthy_script (scripts_of pkg) ''start'') \<Longrightarrow>
   routes r =
      [\<lparr>src = Some ''/static/(.*)'', dest = None,
        headers = Some [(''cache-control'', ''s-maxage=31536000, immutable'')],
        continue = Some True, handle = None\<rparr>,
       \<lparr>src = Some ''/service-worker.js'', dest = None,
        headers = Some [(''cache-control'', ''s-maxage=0'')],
        continue = Some True, handle = None\<rparr>,
       \<lparr>src = Some ''/sockjs-node/(.*)'', dest = Some ''/sockjs-node/$1'',
        headers = None, continue = None, handle = None\<rparr>,
       \<lparr>src = None, dest = None, headers = None, continue = None,
        handle = Some ''filesystem''\<rparr>,
       \<lparr>src = Some ''/(.*)'', dest = Some ''/render.js'',
        headers = None, continue = None, handle = None\<rparr>]"
proof -
  assume ok: "fst (build env opts st) = Inr r"
    and pkg: "readPackageJson env (pkgPath_of env opts) = Inr pkg"
    and mode: "\<not> (isDev (meta opts) \<and> truthy_script (scripts_of pkg) ''start'')"
  from ok obtain pkg2 nodeVersion b where
    pre: "build_setup env opts = Inr (pkg2, nodeVersion)"
    and start: "has_start_script opts pkg2 = Inr b"
    by (rule build_returns)
  from setup_manifest [OF pre] pkg have same: "pkg2 = pkg" by simp
  from has_start_script_iff [OF start] mode same have "b = False" by simp
  with start have start2: "has_start_script opts pkg2 = Inr False" by simp
  from ok obtain rs globbed where
    static: "build_static env opts pkg2 = Inr (rs, globbed)"
    and lam: "build_lambda env opts nodeVersion rs globbed = Inr r"
    unfolding build_not_dev [OF pre start2] by (auto split: sum.splits prod.splits)
  from build_lambda_result(1) [OF lam] build_static_routes [OF static]
  show ?thesis by (simp add: static_routes_def)
qed

theorem build_static_routes_fixed_witness:
  "fst (build (site_env (manifest [''build'' \<mapsto> ''webpack'']) True) (site_options False)
          initial_state) =
     Inr \<lparr>routes = static_routes, watch = [''build/node/index.js'', ''**/*''],
          output =
            [(''index.html'', FileOut (FileFsRef ''/w/build/web/index.html'' (Some 33188))),
             (''render.js'', LambdaOut (Lambda ''zip'' ''___now_launcher.launcher'' ''nodejs10.x''))],
          distPath = ''/w/build/web''\<rparr> \<and>
   readPackageJson (site_env (manifest [''build'' \<mapsto> ''webpack'']) True)
       (pkgPath_of (site_env (manifest [''build'' \<mapsto> ''webpack'']) True) (site_options False)) =
     Inr (manifest [''build'' \<mapsto> ''webpack'']) \<and>
   \<not> (isDev (meta (site_options False)) \<and>
      truthy_script (scripts_of (manifest [''build'' \<mapsto> ''webpack''])) ''start'') \<and>
   routes \<lparr>routes = static_routes, watch = [''build/node/index.js'', ''**/*''],
          output =
            [(''index.html'', FileOut (FileFsRef ''/w/build/web/index.html'' (Some 33188))),
             (''render.js'', LambdaOut (Lambda ''zip'' ''___now_launcher.launcher'' ''nodejs10.x''))],
          distPath = ''/w/build/web''\<rparr> =
      [\<lparr>src = Some ''/static/(.*)'', dest = None,
        headers = Some [(''cache-control'', ''s-maxage=31536000, immutable'')],
        continue = Some True, handle = None\<rparr>,
       \<lparr>src = Some ''/service-worker.js'', dest = None,
        headers = Some [(''cache-control'', ''s-maxage=0'')],
        continue = Some True, handle = None\<rparr>,
       \<lparr>src = Some ''/sockjs-node/(.*)'', dest = Some ''/sockjs-node/$1'',
        headers = None, continue = None, handle = None\<rparr>,
       \<lparr>src = None, dest = None, headers = None, continue = None,
        handle = Some ''filesystem''\<rparr>,
       \<lparr>src = Some ''/(.*)'', dest = Some ''/render.js'',
        headers = None, continue = None, handle = None\<rparr>]"
proof -
  have run: "fst (build (site_env (manifest [''build'' \<mapsto> ''webpack'']) True)
      (site_options False) initial_state) =
     Inr \<lparr>routes = static_routes, watch = [''build/node/index.js'', ''**/*''],
          output =
            [(''index.html'', FileOut (FileFsRef ''/w/build/web/index.html'' (Some 33188))),
             (''render.js'', LambdaOut (Lambda ''zip'' ''___now_launcher.launcher'' ''nodejs10.x''))],
          distPath = ''/w/build/web''\<rparr>"
    by (simp add: site_build_static)
  have pkg: "readPackageJson (site_env (manifest [''build'' \<mapsto> ''webpack'']) True)
       (pkgPath_of (site_env (manifest [''build'' \<mapsto> ''webpack'']) True) (site_options False)) =
     Inr (manifest [''build'' \<mapsto> ''webpack''])"
    by (simp add: site_env_def)
  have mode: "\<not> (isDev (meta (site_options False)) \<and>
      truthy_script (scripts_of (manifest [''build'' \<mapsto> ''webpack''])) ''start'')"
    by (simp add: site_options_def)
  show ?thesis
    by (intro conjI run pkg mode build_static_routes_fixed [OF run pkg mode])
qed

text \<open>
  C4 as stated fails for a dev-mode invocation whose manifest has no start script: the
  guard of the dev branch is \<^verbatim>\<open>meta.isDev && pkg.scripts && pkg.scripts.start\<close>,
  and without a start script the build takes the other branch, warns, and returns the
  five static routes.
\<close>

theorem build_dev_without_start_counterexample:
  "isDev (meta (site_options True)) \<and>
   fst (build (site_env (manifest [''build'' \<mapsto> ''webpack'']) True) (site_options True)
          initial_state) =
     Inr \<lparr>routes =
      [\<lparr>src = Some ''/static/(.*)'', dest = None,
        headers = Some [(''cache-control'', ''s-maxage=31536000, immutable'')],
        continue = Some True, handle = None\<rparr>,
       \<lparr>src = Some ''/service-worker.js'', dest = None,
        headers = Some [(''cache-control'', ''s-maxage=0'')],
        continue = Some True, handle = None\<rparr>,
       \<lparr>src = Some ''/sockjs-node/(.*)'', dest = Some ''/sockjs-node/$1'',
        headers = None, continue = None, handle = None\<rparr>,
       \<lparr>src = None, dest = None, headers = None, continue = None,
        handle = Some ''filesystem''\<rparr>,
       \<lparr>src = Some ''/(.*)'', dest = Some ''/render.js'',
        headers = None, continue = None, handle = None\<rparr>],
          watch = [''build/node/index.js'', ''**/*''],
          output =
            [(''index.html'', FileOut (FileFsRef ''/w/build/web/index.html'' (Some 33188))),
             (''render.js'', LambdaOut (Lambda ''zip'' ''___now_launcher.launcher'' ''nodejs''))],
          distPath = ''/w/build/web''\<rparr>"
  by (simp add: site_build_static truthy_script_def) (simp add: site_options_def static_routes_def)

text \<open>
  C4 (amended): a dev-mode invocation that returns, returns one of two routing sets.
  If the manifest declares a start script with a non-empty command, it is a single
  route: the destination is \<^verbatim>\<open>http://localhost:<port>/$1\<close> for the port the
  registry holds for the entrypoint, there are no headers, since the base rule has none
  (getDevRoute forwards the headers of its base rule), and, for an ordinary mount point,
  the source is the mount-relative prefix followed by \<^verbatim>\<open>/(.*)\<close>; so no static,
  service-worker, sockjs, filesystem or render rule is among the routes. The source on
  a mount point that is not ordinary is not stated. If the manifest has no such start
  script, the routes are the five static rules.
\<close>

theorem build_dev_routes:
  "fst (build env opts st) = Inr r \<Longrightarrow>
   readPackageJson env (pkgPath_of env opts) = Inr pkg \<Longrightarrow>
   isDev (meta opts) \<Longrightarrow>
   (truthy_script (scripts_of pkg) ''start'' \<longrightarrow>
      (\<exists>devPort source.
         nowDevScriptPorts (snd (build env opts st)) (entrypoint opts) = Some devPort \<and>
         routes r =
           [\<lparr>src = Some source,
             dest = Some (''http://localhost:'' @ show_nat devPort @ ''/$1''),
             headers = None, continue = None, handle = None\<rparr>] \<and>
         (ordinary_mountpoint (mountpoint_of env opts) \<longrightarrow>
            source = mount_prefix (mountpoint_of env opts) @ ''/(.*)''))) \<and>
   (\<not> truthy_script (scripts_of pkg) ''start'' \<longrightarrow>
      routes r =
        [\<lparr>src = Some ''/static/(.*)'', dest = None,
          headers = Some [(''cache-control'', ''s-maxage=31536000, immutable'')],
          continue = Some True, handle = None\<rparr>,
         \<lparr>src = Some ''/service-worker.js'', dest = None,
          headers = Some [(''cache-control'', ''s-maxage=0'')],
          continue = Some True, handle = None\<rparr>,
         \<lparr>src = Some ''/sockjs-node/(.*)'', dest = Some ''/sockjs-node/$1'',
          headers = None, continue = None, handle = None\<rparr>,
         \<lparr>src = None, dest = None, headers = None, continue = None,
          handle = Some ''filesystem''\<rparr>,
         \<lparr>src = Some ''/(.*)'', dest = Some ''/render.js'',
          headers = None, continue = None, handle = None\<rparr>]) \<and>
   headers (getDevRoute srcBase port base) = headers base"
proof (intro conjI impI)
  assume ok: "fst (build env opts st) = Inr r"
    and pkg: "readPackageJson env (pkgPath_of env opts) = Inr pkg"
    and mode: "isDev (meta opts)" "truthy_script (scripts_of pkg) ''start''"
  from ok obtain pkg2 nodeVersion b where
    pre: "build_setup env opts = Inr (pkg2, nodeVersion)"
    and start: "has_start_script opts pkg2 = Inr b"
    by (rule build_returns)
  from setup_manifest [OF pre] pkg have same: "pkg2 = pkg" by simp
  from has_start_script_iff [OF start] mode same have "b = True" by simp
  with start have start2: "has_start_script opts pkg2 = Inr True" by simp
  from ok obtain devPort st' where
    server: "dev_server env (entrypoint opts) (entrypointDir_of env opts) st = (Inr devPort, st')"
    and lam: "build_lambda env opts nodeVersion (dev_routes (mountpoint_of env opts) devPort) [] = Inr r"
    and state: "snd (build env opts st) = st'"
    unfolding build_dev [OF pre start2] by (auto split: sum.splits prod.splits)
  from dev_server_port [OF server] state
  have held: "nowDevScriptPorts (snd (build env opts st)) (entrypoint opts) = Some devPort"
    by simp
  from build_lambda_result(1) [OF lam] have one: "routes r =
        [\<lparr>src = Some (srcBase_of (mountpoint_of env opts) @ ''/(.*)''),
          dest = Some (''http://localhost:'' @ show_nat devPort @ ''/$1''),
          headers = None, continue = None, handle = None\<rparr>]"
    by (simp add: dev_routes_def getDevRoute_def interpolate_def)
  have prefix: "ordinary_mountpoint (mountpoint_of env opts) \<longrightarrow>
      srcBase_of (mountpoint_of env opts) @ ''/(.*)'' =
        mount_prefix (mountpoint_of env opts) @ ''/(.*)''"
    by (simp add: srcBase_of_ordinary)
  from held one prefix
  show "\<exists>devPort source.
         nowDevScriptPorts (snd (build env opts st)) (entrypoint opts) = Some devPort \<and>
         routes r =
           [\<lparr>src = Some source,
             dest = Some (''http://localhost:'' @ show_nat devPort @ ''/$1''),
             headers = None, continue = None, handle = None\<rparr>] \<and>
         (ordinary_mountpoint (mountpoint_of env opts) \<longrightarrow>
            source = mount_prefix (mountpoint_of env opts) @ ''/(.*)'')"
    by (intro exI [of _ devPort] exI [of _ "srcBase_of (mountpoint_of env opts) @ ''/(.*)''"]
        conjI)
next
  assume ok: "fst (build env opts st) = Inr r"
    and pkg: "readPackageJson env (pkgPath_of env opts) = Inr pkg"
    and none: "\<not> truthy_script (scripts_of pkg) ''start''"
  from none have "\<not> (isDev (meta opts) \<and> truthy_script (scripts_of pkg) ''start'')"
    by simp
  from build_without_dev_server [OF ok pkg this]
  show "routes r =
        [\<lparr>src = Some ''/static/(.*)'', dest = None,
          headers = Some [(''cache-control'', ''s-maxage=31536000, immutable'')],
          continue = Some True, handle = None\<rparr>,
         \<lparr>src = Some ''/service-worker.js'', dest = None,
          headers = Some [(''cache-control'', ''s-maxage=0'')],
          continue = Some True, handle = None\<rparr>,
         \<lparr>src = Some ''/sockjs-node/(.*)'', dest = Some ''/sockjs-node/$1'',
          headers = None, continue = None, handle = None\<rparr>,
         \<lparr>src = None, dest = None, headers = None, continue = None,
          handle = Some ''filesystem''\<rparr>,
         \<lparr>src = Some ''/(.*)'', dest = Some ''/render.js'',
          headers = None, continue = None, handle = None\<rparr>]"
    by (simp add: static_routes_def)
next
  show "headers (getDevRoute srcBase port base) = headers base"
    by (simp add: getDevRoute_def Let_def)
qed

theorem build_dev_routes_witness:
  "fst (build (docs_env (manifest [''start'' \<mapsto> ''react-scripts start'']) True) (docs_options True) initial_state) =
     Inr \<lparr>routes = dev_routes ''docs'' 3000,
          watch = [''docs/build/node/index.js'', ''docs/**/*''],
          output = [(''render.js'', LambdaOut (Lambda ''zip'' ''___now_launcher.launcher'' ''nodejs''))],
          distPath = ''/w/docs/build/web''\<rparr> \<and>
   isDev (meta (docs_options True)) \<and>
   truthy_script (scripts_of (manifest [''start'' \<mapsto> ''react-scripts start''])) ''start'' \<and>
   mountpoint_of (docs_env (manifest [''start'' \<mapsto> ''react-scripts start'']) True) (docs_options True) = ''docs'' \<and>
   ordinary_mountpoint (mountpoint_of (docs_env (manifest [''start'' \<mapsto> ''react-scripts start'']) True) (docs_options True)) \<and>
   mount_prefix (mountpoint_of (docs_env (manifest [''start'' \<mapsto> ''react-scripts start'']) True) (docs_options True)) = ''/docs'' \<and>
   (\<exists>devPort.
      nowDevScriptPorts (snd (build (docs_env (manifest [''start'' \<mapsto> ''react-scripts start'']) True) (docs_options True) initial_state))
        (entrypoint (docs_options True)) = Some devPort \<and>
      routes \<lparr>routes = dev_routes ''docs'' 3000,
          watch = [''docs/build/node/index.js'', ''docs/**/*''],
          output = [(''render.js'', LambdaOut (Lambda ''zip'' ''___now_launcher.launcher'' ''nodejs''))],
          distPath = ''/w/docs/build/web''\<rparr> =
        [\<lparr>src = Some (mount_prefix (mountpoint_of (docs_env (manifest [''start'' \<mapsto> ''react-scripts start'']) True) (docs_options True)) @ ''/(.*)''),
          dest = Some (''http://localhost:'' @ show_nat devPort @ ''/$1''),
          headers = None, continue = None, handle = None\<rparr>]) \<and>
   fst (build (site_env (manifest [''build'' \<mapsto> ''react-scripts build'']) True) (site_options True) initial_state) =
     Inr \<lparr>routes = static_routes, watch = [''build/node/index.js'', ''**/*''],
          output =
            [(''index.html'', FileOut (FileFsRef ''/w/build/web/index.html'' (Some 33188))),
             (''render.js'', LambdaOut (Lambda ''zip'' ''___now_launcher.launcher'' ''nodejs''))],
          distPath = ''/w/build/web''\<rparr> \<and>
   isDev (meta (site_options True)) \<and>
   \<not> truthy_script (scripts_of (manifest [''build'' \<mapsto> ''react-scripts build''])) ''start'' \<and>
   routes \<lparr>routes = static_routes, watch = [''build/node/index.js'', ''**/*''],
          output =
            [(''index.html'', FileOut (FileFsRef ''/w/build/web/index.html'' (Some 33188))),
             (''render.js'', LambdaOut (Lambda ''zip'' ''___now_launcher.launcher'' ''nodejs''))],
          distPath = ''/w/build/web''\<rparr> =
     [\<lparr>src = Some ''/static/(.*)'', dest = None,
       headers = Some [(''cache-control'', ''s-maxage=31536000, immutable'')],
       continue = Some True, handle = None\<rparr>,
      \<lparr>src = Some ''/service-worker.js'', dest = None,
       headers = Some [(''cache-control'', ''s-maxage=0'')],
       continue = Some True, handle = None\<rparr>,
      \<lparr>src = Some ''/sockjs-node/(.*)'', dest = Some ''/sockjs-node/$1'',
       headers = None, continue = None, handle = None\<rparr>,
      \<lparr>src = None, dest = None, headers = None, continue = None,
       handle = Some ''filesystem''\<rparr>,
      \<lparr>src = Some ''/(.*)'', dest = Some ''/render.js'',
       headers = None, continue = None, handle = None\<rparr>]"
proof -
  have script: "truthy_script [''start'' \<mapsto> ''react-scripts start''] ''start''"
    by (simp add: truthy_script_def)
  have run: "fst (build (docs_env (manifest [''start'' \<mapsto> ''react-scripts start'']) True) (docs_options True) initial_state) =
     Inr \<lparr>routes = dev_routes ''docs'' 3000,
          watch = [''docs/build/node/index.js'', ''docs/**/*''],
          output = [(''render.js'', LambdaOut (Lambda ''zip'' ''___now_launcher.launcher'' ''nodejs''))],
          distPath = ''/w/docs/build/web''\<rparr>"
    by (simp add: docs_build_dev [OF script])
  have pkg: "readPackageJson (docs_env (manifest [''start'' \<mapsto> ''react-scripts start'']) True) (pkgPath_of (docs_env (manifest [''start'' \<mapsto> ''react-scripts start'']) True) (docs_options True)) =
     Inr (manifest [''start'' \<mapsto> ''react-scripts start''])"
    by (simp add: docs_env_def site_env_def)
  have dev: "isDev (meta (docs_options True))"
    by (simp add: docs_options_def)
  have start: "truthy_script (scripts_of (manifest [''start'' \<mapsto> ''react-scripts start''])) ''start''"
    using script by (simp add: manifest_def scripts_of_def)
  have mount: "mountpoint_of (docs_env (manifest [''start'' \<mapsto> ''react-scripts start'']) True) (docs_options True) = ''docs''"
    by (rule docs_paths)
  have ordinary: "ordinary_mountpoint (mountpoint_of (docs_env (manifest [''start'' \<mapsto> ''react-scripts start'']) True) (docs_options True))"
    unfolding mount by (simp add: ordinary_mountpoint_def)
  have prefix: "mount_prefix (mountpoint_of (docs_env (manifest [''start'' \<mapsto> ''react-scripts start'']) True) (docs_options True)) = ''/docs''"
    unfolding mount by (simp add: mount_prefix_def)
  from build_dev_routes [OF run pkg dev, THEN conjunct1, THEN mp, OF start]
  obtain devPort source where
    held: "nowDevScriptPorts (snd (build (docs_env (manifest [''start'' \<mapsto> ''react-scripts start'']) True) (docs_options True) initial_state))
        (entrypoint (docs_options True)) = Some devPort"
    and one: "routes \<lparr>routes = dev_routes ''docs'' 3000,
          watch = [''docs/build/node/index.js'', ''docs/**/*''],
          output = [(''render.js'', LambdaOut (Lambda ''zip'' ''___now_launcher.launcher'' ''nodejs''))],
          distPath = ''/w/docs/build/web''\<rparr> =
        [\<lparr>src = Some source,
          dest = Some (''http://localhost:'' @ show_nat devPort @ ''/$1''),
          headers = None, continue = None, handle = None\<rparr>]"
    and source: "ordinary_mountpoint (mountpoint_of (docs_env (manifest [''start'' \<mapsto> ''react-scripts start'']) True) (docs_options True)) \<longrightarrow>
        source = mount_prefix (mountpoint_of (docs_env (manifest [''start'' \<mapsto> ''react-scripts start'']) True) (docs_options True)) @ ''/(.*)''"
    by (elim exE conjE)
  from source ordinary
  have "source = mount_prefix (mountpoint_of (docs_env (manifest [''start'' \<mapsto> ''react-scripts start'']) True) (docs_options True)) @ ''/(.*)''"
    by (rule mp)
  with one have two: "routes \<lparr>routes = dev_routes ''docs'' 3000,
          watch = [''docs/build/node/index.js'', ''docs/**/*''],
          output = [(''render.js'', LambdaOut (Lambda ''zip'' ''___now_launcher.launcher'' ''nodejs''))],
          distPath = ''/w/docs/build/web''\<rparr> =
        [\<lparr>src = Some (mount_prefix (mountpoint_of (docs_env (manifest [''start'' \<mapsto> ''react-scripts start'']) True) (docs_options True)) @ ''/(.*)''),
          dest = Some (''http://localhost:'' @ show_nat devPort @ ''/$1''),
          headers = None, continue = None, handle = None\<rparr>]"
    by (simp only:)
  have proxy: "\<exists>devPort.
      nowDevScriptPorts (snd (build (docs_env (manifest [''start'' \<mapsto> ''react-scripts start'']) True) (docs_options True) initial_state))
        (entrypoint (docs_options True)) = Some devPort \<and>
      routes \<lparr>routes = dev_routes ''docs'' 3000,
          watch = [''docs/build/node/index.js'', ''docs/**/*''],
          output = [(''render.js'', LambdaOut (Lambda ''zip'' ''___now_launcher.launcher'' ''nodejs''))],
          distPath = ''/w/docs/build/web''\<rparr> =
        [\<lparr>src = Some (mount_prefix (mountpoint_of (docs_env (manifest [''start'' \<mapsto> ''react-scripts start'']) True) (docs_options True)) @ ''/(.*)''),
          dest = Some (''http://localhost:'' @ show_nat devPort @ ''/$1''),
          headers = None, continue = None, handle = None\<rparr>]"
    by (rule exI [of _ devPort]) (intro conjI held two)
  have plain: "\<not> (True \<and> truthy_script [''build'' \<mapsto> ''react-scripts build''] ''start'')"
    by (simp add: truthy_script_def)
  have run2: "fst (build (site_env (manifest [''build'' \<mapsto> ''react-scripts build'']) True) (site_options True) initial_state) =
     Inr \<lparr>routes = static_routes, watch = [''build/node/index.js'', ''**/*''],
          output =
            [(''index.html'', FileOut (FileFsRef ''/w/build/web/index.html'' (Some 33188))),
             (''render.js'', LambdaOut (Lambda ''zip'' ''___now_launcher.launcher'' ''nodejs''))],
          distPath = ''/w/build/web''\<rparr>"
    by (simp add: site_build_static [OF plain])
  have pkg2: "readPackageJson (site_env (manifest [''build'' \<mapsto> ''react-scripts build'']) True) (pkgPath_of (site_env (manifest [''build'' \<mapsto> ''react-scripts build'']) True) (site_options True)) =
     Inr (manifest [''build'' \<mapsto> ''react-scripts build''])"
    by (simp add: site_env_def)
  have dev2: "isDev (meta (site_options True))"
    by (simp add: site_options_def)
  have none: "\<not> truthy_script (scripts_of (manifest [''build'' \<mapsto> ''react-scripts build''])) ''start''"
    by (simp add: manifest_def scripts_of_def truthy_script_def)
  note static = build_dev_routes [OF run2 pkg2 dev2, THEN conjunct2, THEN conjunct1, THEN mp,
      OF none]
  show ?thesis
    by (intro conjI run dev start mount ordinary prefix proxy run2 dev2 none static)
qed

text \<open>
  C8 as stated fails in the name the error carries. Outside zero-config mode, with
  neither a \<^verbatim>\<open>now-build\<close> nor a \<^verbatim>\<open>build\<close> script, getCommand resolves to
  \<^verbatim>\<open>now-build\<close> (rule 4 of section 4.3), and that is the name in the message, not
  \<^verbatim>\<open>build\<close>.
\<close>

theorem build_missing_script_counterexample:
  \<open>\<not> zeroConfig (config (site_options False)) \<and>
   scripts_of (manifest Map.empty) ''now-build'' = None \<and>
   scripts_of (manifest Map.empty) ''build'' = None \<and>
   runPackageJsonScript (site_env (manifest Map.empty) False) ''/w'' ''now-build'' = Inr False \<and>
   fst (build (site_env (manifest Map.empty) False) (site_options False) initial_state) =
     Inl (Error ''Missing required "now-build" script in "package.json"'') \<and>
   fst (build (site_env (manifest Map.empty) False) (site_options False) initial_state) \<noteq>
     Inl (Error ''Missing required "build" script in "package.json"'')\<close>
proof -
  have name: "getCommand (manifest Map.empty) ''build'' custom_config = ''now-build''"
    by (simp add: getCommand_def manifest_def scripts_of_def truthy_script_def custom_config_def)
  have run: \<open>fst (build (site_env (manifest Map.empty) False) (site_options False) initial_state) =
     Inl (Error ''Missing required "now-build" script in "package.json"'')\<close>
    by (simp add: site_build_missing_script name missing_script_message_def)
  show ?thesis
    unfolding run
    by (simp add: site_options_def custom_config_def manifest_def scripts_of_def site_env_def)
qed

text \<open>
  C8 (amended): with the manifest script \<^verbatim>\<open>build: "webpack"\<close> the resolved build
  script is \<^verbatim>\<open>now-build\<close> if the manifest declares it with a non-empty command,
  else \<^verbatim>\<open>build\<close>. With neither script, the resolved name is \<^verbatim>\<open>now-build\<close>
  outside zero-config mode and \<^verbatim>\<open>build\<close> in it. When the build is not a
  dev-server build and runPackageJsonScript answers that the script was not found, the
  build fails with the error "Missing required ... script" that names the resolved
  script and the entrypoint, and the module's state is unchanged.
\<close>

theorem build_missing_script:
  "(scripts_of pkg ''build'' = Some ''webpack'' \<longrightarrow>
      getCommand pkg ''build'' (config opts) =
        (if truthy_script (scripts_of pkg) ''now-build'' then ''now-build'' else ''build'')) \<and>
   (\<not> truthy_script (scripts_of pkg) ''now-build'' \<and> \<not> truthy_script (scripts_of pkg) ''build'' \<longrightarrow>
      getCommand pkg ''build'' (config opts) =
        (if zeroConfig (config opts) then ''build'' else ''now-build'')) \<and>
   (build_setup env opts = Inr (pkg, nodeVersion) \<and>
    has_start_script opts pkg = Inr False \<and>
    runPackageJsonScript env (entrypointDir_of env opts) (getCommand pkg ''build'' (config opts)) =
      Inr False \<longrightarrow>
      build env opts st =
        (Inl (Error (missing_script_message (getCommand pkg ''build'' (config opts))
           (entrypoint opts))), st))"
proof (intro conjI impI)
  assume "scripts_of pkg ''build'' = Some ''webpack''"
  then show "getCommand pkg ''build'' (config opts) =
        (if truthy_script (scripts_of pkg) ''now-build'' then ''now-build'' else ''build'')"
    by (simp add: getCommand_def truthy_script_def)
next
  assume "\<not> truthy_script (scripts_of pkg) ''now-build'' \<and> \<not> truthy_script (scripts_of pkg) ''build''"
  then show "getCommand pkg ''build'' (config opts) =
        (if zeroConfig (config opts) then ''build'' else ''now-build'')"
    by (simp add: getCommand_def)
next
  assume a: "build_setup env opts = Inr (pkg, nodeVersion) \<and>
    has_start_script opts pkg = Inr False \<and>
    runPackageJsonScript env (entrypointDir_of env opts) (getCommand pkg ''build'' (config opts)) =
      Inr False"
  then have static: "build_static env opts pkg =
      Inl (Error (missing_script_message (getCommand pkg ''build'' (config opts)) (entrypoint opts)))"
    by (simp add: build_static_def Let_def)
  from a have "build env opts st =
      (case build_static env opts pkg of
         Inl e \<Rightarrow> (Inl e, st)
       | Inr (rs, globbed) \<Rightarrow> (build_lambda env opts nodeVersion rs globbed, st))"
    by (intro build_not_dev) simp_all
  with static show "build env opts st =
        (Inl (Error (missing_script_message (getCommand pkg ''build'' (config opts))
           (entrypoint opts))), st)"
    by simp
qed


theorem build_missing_script_witness:
  "scripts_of (manifest [''build'' \<mapsto> ''webpack'']) ''build'' = Some ''webpack'' \<and>
   getCommand (manifest [''build'' \<mapsto> ''webpack'']) ''build'' (config (site_options False)) =
     (if truthy_script (scripts_of (manifest [''build'' \<mapsto> ''webpack''])) ''now-build''
      then ''now-build'' else ''build'') \<and>
   \<not> truthy_script (scripts_of (manifest Map.empty)) ''now-build'' \<and>
   \<not> truthy_script (scripts_of (manifest Map.empty)) ''build'' \<and>
   getCommand (manifest Map.empty) ''build'' (config (site_options False)) =
     (if zeroConfig (config (site_options False)) then ''build'' else ''now-build'') \<and>
   build_setup (site_env (manifest Map.empty) False) (site_options False) =
     Inr (manifest Map.empty, \<lparr>runtime = ''nodejs10.x''\<rparr>) \<and>
   has_start_script (site_options False) (manifest Map.empty) = Inr False \<and>
   runPackageJsonScript (site_env (manifest Map.empty) False)
     (entrypointDir_of (site_env (manifest Map.empty) False) (site_options False))
     (getCommand (manifest Map.empty) ''build'' (config (site_options False))) = Inr False \<and>
   build (site_env (manifest Map.empty) False) (site_options False) initial_state =
     (Inl (Error (missing_script_message
        (getCommand (manifest Map.empty) ''build'' (config (site_options False)))
        (entrypoint (site_options False)))), initial_state)"
proof -
  have declared: "scripts_of (manifest [''build'' \<mapsto> ''webpack'']) ''build'' = Some ''webpack''"
    by (simp add: manifest_def scripts_of_def)
  have neither: "\<not> truthy_script (scripts_of (manifest Map.empty)) ''now-build'' \<and>
      \<not> truthy_script (scripts_of (manifest Map.empty)) ''build''"
    by (simp add: manifest_def scripts_of_def truthy_script_def)
  have pre: "build_setup (site_env (manifest Map.empty) False) (site_options False) =
     Inr (manifest Map.empty, \<lparr>runtime = ''nodejs10.x''\<rparr>)"
    by (rule site_setup)
  have start: "has_start_script (site_options False) (manifest Map.empty) = Inr False"
    by (simp add: has_start_script_def site_options_def)
  have found: "runPackageJsonScript (site_env (manifest Map.empty) False)
     (entrypointDir_of (site_env (manifest Map.empty) False) (site_options False))
     (getCommand (manifest Map.empty) ''build'' (config (site_options False))) = Inr False"
    by (simp add: site_env_def)
  from pre start found have all: "build_setup (site_env (manifest Map.empty) False) (site_options False) =
     Inr (manifest Map.empty, \<lparr>runtime = ''nodejs10.x''\<rparr>) \<and>
     has_start_script (site_options False) (manifest Map.empty) = Inr False \<and>
     runPackageJsonScript (site_env (manifest Map.empty) False)
       (entrypointDir_of (site_env (manifest Map.empty) False) (site_options False))
       (getCommand (manifest Map.empty) ''build'' (config (site_options False))) = Inr False"
    by (intro conjI)
  note resolved = build_missing_script [where pkg = "manifest [''build'' \<mapsto> ''webpack'']"
      and opts = "site_options False", THEN conjunct1, rule_format, OF declared]
  note fallback = build_missing_script [where pkg = "manifest Map.empty"
      and opts = "site_options False", THEN conjunct2, THEN conjunct1, rule_format, OF neither]
  note failure = build_missing_script [where pkg = "manifest Map.empty"
      and opts = "site_options False" and env = "site_env (manifest Map.empty) False"
      and st = initial_state, THEN conjunct2, THEN conjunct2, rule_format, OF all]
  show ?thesis
    by (intro conjI declared resolved neither [THEN conjunct1] neither [THEN conjunct2]
        fallback pre start found failure)
qed

text \<open>
  C10: whenever build returns a result, in dev mode or not, the render entrypoint has
  been traced by compile and createLambda has packaged the traced files merged with the
  three companion files: \<^verbatim>\<open>___now_launcher.js\<close>, a blob of the launcher that
  makeNowLauncher generates for the entrypoint \<^verbatim>\<open>./build/node/index.js\<close>, the bridge
  and the helpers; \<^verbatim>\<open>___now_bridge.js\<close>, the file \<^verbatim>\<open>bridge.js\<close> of the
  builder's own directory; and \<^verbatim>\<open>___now_helpers.js\<close>, its file
  \<^verbatim>\<open>helpers.js\<close>. A companion file takes precedence where a traced file has the
  same name, the handler is the launcher's and the runtime is that of the mode; and the
  output maps \<^verbatim>\<open>render.js\<close> to that lambda.
\<close>

theorem build_packages_lambda:
  "fst (build env opts st) = Inr r \<Longrightarrow>
   (\<exists>preparedFiles watched nodeVersion l companions.
     companions =
        [(''___now_launcher.js'',
          FileBlob (Str (makeNowLauncher env
            \<lparr>entrypointPath = ''./build/node/index.js'', bridgePath = ''./___now_bridge'',
             helpersPath = ''./___now_helpers'',
             sourcemapSupportPath = ''./__sourcemap_support'', shouldAddHelpers = True\<rparr>)) None),
         (''___now_bridge.js'',
          FileFsRef (join (np (tracer env)) [module_dirname env, ''bridge.js'']) None),
         (''___now_helpers.js'',
          FileFsRef (join (np (tracer env)) [module_dirname env, ''helpers.js'']) None)] \<and>
     compile (tracer env) (workPath opts) (renderPath_of env opts)
       (config opts) = Inr (preparedFiles, watched) \<and>
     getNodeVersion env (entrypointDir_of env opts) (config opts) =
       Inr nodeVersion \<and>
     createLambda env (spread preparedFiles companions) ''___now_launcher.launcher''
       (if isDev (meta opts) then ''nodejs'' else runtime nodeVersion) = Inr l \<and>
     map_of (spread preparedFiles companions) = map_of preparedFiles ++ map_of companions \<and>
     map_of (output r) ''render.js'' = Some (LambdaOut l))"
proof -
  assume ok: "fst (build env opts st) = Inr r"
  from ok obtain pkg nodeVersion b where
    pre: "build_setup env opts = Inr (pkg, nodeVersion)"
    and start: "has_start_script opts pkg = Inr b"
    by (rule build_returns)
  have "\<exists>rs globbed. build_lambda env opts nodeVersion rs globbed = Inr r"
  proof (cases b)
    case True
    with start have dev: "has_start_script opts pkg = Inr True" by simp
    from ok show ?thesis
      unfolding build_dev [OF pre dev]
      by (auto split: sum.splits prod.splits)
  next
    case False
    with start have static: "has_start_script opts pkg = Inr False" by simp
    from ok show ?thesis
      unfolding build_not_dev [OF pre static]
      by (auto split: sum.splits prod.splits)
  qed
  then obtain rs globbed where lam: "build_lambda env opts nodeVersion rs globbed = Inr r"
    by blast
  from build_lambda_result(2) [OF lam] obtain preparedFiles watched l where
    traced: "compile (tracer env) (workPath opts) (renderPath_of env opts) (config opts) =
      Inr (preparedFiles, watched)"
    and packed: "createLambda env (spread preparedFiles (launcherFiles env))
      ''___now_launcher.launcher''
      (if isDev (meta opts) then ''nodejs'' else runtime nodeVersion) = Inr l"
    and out: "map_of (output r) ''render.js'' = Some (LambdaOut l)"
    by blast
  have companions: "launcherFiles env =
        [(''___now_launcher.js'',
          FileBlob (Str (makeNowLauncher env
            \<lparr>entrypointPath = ''./build/node/index.js'', bridgePath = ''./___now_bridge'',
             helpersPath = ''./___now_helpers'',
             sourcemapSupportPath = ''./__sourcemap_support'', shouldAddHelpers = True\<rparr>)) None),
         (''___now_bridge.js'',
          FileFsRef (join (np (tracer env)) [module_dirname env, ''bridge.js'']) None),
         (''___now_helpers.js'',
          FileFsRef (join (np (tracer env)) [module_dirname env, ''helpers.js'']) None)]"
    by (simp add: launcherFiles_def LAUNCHER_FILENAME_def BRIDGE_FILENAME_def
        HELPERS_FILENAME_def SOURCEMAP_SUPPORT_FILENAME_def)
  from setup_manifest [OF pre]
  have version: "getNodeVersion env (entrypointDir_of env opts) (config opts) = Inr nodeVersion"
    by (rule conjunct2)
  show ?thesis
    apply (rule exI [of _ preparedFiles], rule exI [of _ watched], rule exI [of _ nodeVersion])
    apply (rule exI [of _ l], rule exI [of _ "launcherFiles env"])
    apply (intro conjI companions traced version packed spread_launcherFiles out)
    done
qed

theorem build_packages_lambda_witness:
  "fst (build (site_env (manifest [''build'' \<mapsto> ''webpack'']) True) (site_options False) initial_state) =
     Inr \<lparr>routes = static_routes, watch = [''build/node/index.js'', ''**/*''],
          output =
            [(''index.html'', FileOut (FileFsRef ''/w/build/web/index.html'' (Some 33188))),
             (''render.js'', LambdaOut (Lambda ''zip'' ''___now_launcher.launcher'' ''nodejs10.x''))],
          distPath = ''/w/build/web''\<rparr> \<and>
   (\<exists>preparedFiles watched nodeVersion l companions.
     companions =
        [(''___now_launcher.js'',
          FileBlob (Str (makeNowLauncher (site_env (manifest [''build'' \<mapsto> ''webpack'']) True)
            \<lparr>entrypointPath = ''./build/node/index.js'', bridgePath = ''./___now_bridge'',
             helpersPath = ''./___now_helpers'',
             sourcemapSupportPath = ''./__sourcemap_support'', shouldAddHelpers = True\<rparr>)) None),
         (''___now_bridge.js'',
          FileFsRef (join (np (tracer (site_env (manifest [''build'' \<mapsto> ''webpack'']) True))) [module_dirname (site_env (manifest [''build'' \<mapsto> ''webpack'']) True), ''bridge.js'']) None),
         (''___now_helpers.js'',
          FileFsRef (join (np (tracer (site_env (manifest [''build'' \<mapsto> ''webpack'']) True))) [module_dirname (site_env (manifest [''build'' \<mapsto> ''webpack'']) True), ''helpers.js'']) None)] \<and>
     compile (tracer (site_env (manifest [''build'' \<mapsto> ''webpack'']) True)) (workPath (site_options False)) (renderPath_of (site_env (manifest [''build'' \<mapsto> ''webpack'']) True) (site_options False))
       (config (site_options False)) = Inr (preparedFiles, watched) \<and>
     getNodeVersion (site_env (manifest [''build'' \<mapsto> ''webpack'']) True) (entrypointDir_of (site_env (manifest [''build'' \<mapsto> ''webpack'']) True) (site_options False)) (config (site_options False)) =
       Inr nodeVersion \<and>
     createLambda (site_env (manifest [''build'' \<mapsto> ''webpack'']) True) (spread preparedFiles companions) ''___now_launcher.launcher''
       (if isDev (meta (site_options False)) then ''nodejs'' else runtime nodeVersion) = Inr l \<and>
     map_of (spread preparedFiles companions) = map_of preparedFiles ++ map_of companions \<and>
     map_of (output \<lparr>routes = static_routes, watch = [''build/node/index.js'', ''**/*''],
          output =
            [(''index.html'', FileOut (FileFsRef ''/w/build/web/index.html'' (Some 33188))),
             (''render.js'', LambdaOut (Lambda ''zip'' ''___now_launcher.launcher'' ''nodejs10.x''))],
          distPath = ''/w/build/web''\<rparr>) ''render.js'' = Some (LambdaOut l)) \<and>
   fst (build (site_env (manifest [''start'' \<mapsto> ''react-scripts start'']) True) (site_options True) initial_state) =
     Inr \<lparr>routes = dev_routes ''.'' 3000, watch = [''build/node/index.js'', ''**/*''],
          output = [(''render.js'', LambdaOut (Lambda ''zip'' ''___now_launcher.launcher'' ''nodejs''))],
          distPath = ''/w/build/web''\<rparr> \<and>
   (\<exists>preparedFiles watched nodeVersion l companions.
     companions =
        [(''___now_launcher.js'',
          FileBlob (Str (makeNowLauncher (site_env (manifest [''start'' \<mapsto> ''react-scripts start'']) True)
            \<lparr>entrypointPath = ''./build/node/index.js'', bridgePath = ''./___now_bridge'',
             helpersPath = ''./___now_helpers'',
             sourcemapSupportPath = ''./__sourcemap_support'', shouldAddHelpers = True\<rparr>)) None),
         (''___now_bridge.js'',
          FileFsRef (join (np (tracer (site_env (manifest [''start'' \<mapsto> ''react-scripts start'']) True))) [module_dirname (site_env (manifest [''start'' \<mapsto> ''react-scripts start'']) True), ''bridge.js'']) None),
         (''___now_helpers.js'',
          FileFsRef (join (np (tracer (site_env (manifest [''start'' \<mapsto> ''react-scripts start'']) True))) [module_dirname (site_env (manifest [''start'' \<mapsto> ''react-scripts start'']) True), ''helpers.js'']) None)] \<and>
     compile (tracer (site_env (manifest [''start'' \<mapsto> ''react-scripts start'']) True)) (workPath (site_options True)) (renderPath_of (site_env (manifest [''start'' \<mapsto> ''react-scripts start'']) True) (site_options True))
       (config (site_options True)) = Inr (preparedFiles, watched) \<and>
     getNodeVersion (site_env (manifest [''start'' \<mapsto> ''react-scripts start'']) True) (entrypointDir_of (site_env (manifest [''start'' \<mapsto> ''react-scripts start'']) True) (site_options True)) (config (site_options True)) =
       Inr nodeVersion \<and>
     createLambda (site_env (manifest [''start'' \<mapsto> ''react-scripts start'']) True) (spread preparedFiles companions) ''___now_launcher.launcher''
       (if isDev (meta (site_options True)) then ''nodejs'' else runtime nodeVersion) = Inr l \<and>
     map_of (spread preparedFiles companions) = map_of preparedFiles ++ map_of companions \<and>
     map_of (output \<lparr>routes = dev_routes ''.'' 3000, watch = [''build/node/index.js'', ''**/*''],
          output = [(''render.js'', LambdaOut (Lambda ''zip'' ''___now_launcher.launcher'' ''nodejs''))],
          distPath = ''/w/build/web''\<rparr>) ''render.js'' = Some (LambdaOut l))"
proof -
  have run: "fst (build (site_env (manifest [''build'' \<mapsto> ''webpack'']) True) (site_options False) initial_state) =
     Inr \<lparr>routes = static_routes, watch = [''build/node/index.js'', ''**/*''],
          output =
            [(''index.html'', FileOut (FileFsRef ''/w/build/web/index.html'' (Some 33188))),
             (''render.js'', LambdaOut (Lambda ''zip'' ''___now_launcher.launcher'' ''nodejs10.x''))],
          distPath = ''/w/build/web''\<rparr>"
    by (simp add: site_build_static)
  have script: "truthy_script [''start'' \<mapsto> ''react-scripts start''] ''start''"
    by (simp add: truthy_script_def)
  have dev: "fst (build (site_env (manifest [''start'' \<mapsto> ''react-scripts start'']) True) (site_options True) initial_state) =
     Inr \<lparr>routes = dev_routes ''.'' 3000, watch = [''build/node/index.js'', ''**/*''],
          output = [(''render.js'', LambdaOut (Lambda ''zip'' ''___now_launcher.launcher'' ''nodejs''))],
          distPath = ''/w/build/web''\<rparr>"
    by (simp add: site_build_dev [OF script])
  show ?thesis
    by (intro conjI run dev build_packages_lambda [OF run] build_packages_lambda [OF dev])
qed




end
